theory Spec2Isabelle
  imports Complex_Main
begin

section \<open>POMCP: belief-carrying search tree nodes and the particle reinvigorator\<close>

text \<open>
  A shallow embedding of \<^verbatim>\<open>pomdp_py/algorithms/pomcp.py\<close>. Python objects live in an
  explicit heap, because several properties of the planner are about which objects are
  shared: an object reference is an index into the list of allocated objects, allocation
  appends to the list, and nothing is ever freed. Exceptions are values of type
  \<open>error\<close>; a function that can raise returns the error together with the state it
  left behind. Printed messages are collected in the state.
\<close>

subsection \<open>Values and objects\<close>

type_synonym addr = nat

type_synonym ('a, 'o) history = "('a \<times> 'o) list"

text \<open>
  The values that the attributes of this file hold: \<^verbatim>\<open>None\<close>, a reference to an object,
  or a history (a tuple of action/observation pairs, immutable and so held by value).
\<close>

datatype ('a, 'o) pyval = PyNone | Ref addr | Hist "('a, 'o) history"

text \<open>
  The attributes that \<^verbatim>\<open>VNodeParticles.__init__\<close> and \<^verbatim>\<open>RootVNodeParticles.__init__\<close>
  set. A node that is not a root has no \<^verbatim>\<open>history\<close> attribute. The attribute
  \<^verbatim>\<open>value\<close> is called \<open>value_est\<close> here.
\<close>

record ('a, 'o) vnode =
  num_visits :: int
  value_est :: real
  belief :: "('a, 'o) pyval"
  children :: "('a, 'o) pyval"
  history :: "('a, 'o) pyval option"

text \<open>
  The objects of the heap. \<open>Particles\<close> holds the list of sampled states;
  \<open>OtherDistribution\<close> stands for a belief of any class other than \<^verbatim>\<open>Particles\<close>
  (this file never looks inside one); \<open>Dict\<close> is the \<^verbatim>\<open>children\<close> dictionary of a
  belief node, from actions to action nodes; \<open>QNode\<close> is an action node, of which only
  the mapping from observations to child slots is used here.
\<close>

datatype ('a, 'o, 's) obj =
    Particles "'s list"
  | OtherDistribution
  | Dict "'a \<rightharpoonup> ('a, 'o) pyval"
  | VNode "('a, 'o) vnode"
  | QNode "'o \<rightharpoonup> ('a, 'o) pyval"

type_synonym ('a, 'o, 's) heap = "('a, 'o, 's) obj list"

datatype 'e error =
    RepresentationMismatch
  | ParticleDeprivation
  | NoSuchChild
  | WrongObject
  | EmptySample
  | EngineError 'e

datatype message = WarnNoTree | ReinvigorationNotice int

text \<open>
  The agent, as far as this file reads and writes it. \<open>tree = None\<close> says that the
  agent has no attribute \<^verbatim>\<open>tree\<close> (\<^verbatim>\<open>hasattr\<close> is false); \<open>Some PyNone\<close> that the
  attribute is there and holds \<^verbatim>\<open>None\<close>.
\<close>

record ('a, 'o) agent =
  agent_belief :: "('a, 'o) pyval"
  agent_history :: "('a, 'o) history"
  tree :: "('a, 'o) pyval option"
  init_belief :: "('a, 'o) pyval"

text \<open>
  The whole state: the heap, the agent, the messages printed so far, and the source of
  random draws (\<open>draws\<close> is the sequence of numbers the generator will produce,
  \<open>drawn\<close> how many of them have been used).
\<close>

record ('a, 'o, 's) world =
  heap :: "('a, 'o, 's) heap"
  agent :: "('a, 'o) agent"
  printed :: "message list"
  draws :: "nat \<Rightarrow> nat"
  drawn :: nat

record planner =
  num_visits_init :: int
  value_init :: real

subsection \<open>Heap access\<close>

definition get_obj :: "('a, 'o, 's) heap \<Rightarrow> ('a, 'o) pyval \<Rightarrow> ('a, 'o, 's) obj option" where
  "get_obj h v =
     (case v of
        Ref p \<Rightarrow> if p < length h then Some (h ! p) else None
      | _ \<Rightarrow> None)"

definition alloc :: "('a, 'o, 's) heap \<Rightarrow> ('a, 'o, 's) obj \<Rightarrow> addr \<times> ('a, 'o, 's) heap" where
  "alloc h x = (length h, h @ [x])"

definition get_vnode :: "('a, 'o, 's) heap \<Rightarrow> ('a, 'o) pyval \<Rightarrow> ('a, 'o) vnode option" where
  "get_vnode h v = (case get_obj h v of Some (VNode n) \<Rightarrow> Some n | _ \<Rightarrow> None)"

subsection \<open>The particle belief\<close>

text \<open>
  Modelled from the spec: the class \<^verbatim>\<open>Particles\<close> is imported from
  \<^verbatim>\<open>pomdp_py.representations.distribution.particles\<close>, which is not among the sources.
  The spec gives it \<open>add(state)\<close> (appends), \<open>random()\<close> (a uniformly drawn element,
  fails if empty), \<open>size()\<close> and \<open>copy()\<close> (an independent duplicate). States are
  values, so the copy of a state is the state.
\<close>

definition particles_of :: "('a, 'o, 's) heap \<Rightarrow> ('a, 'o) pyval \<Rightarrow> 's list option" where
  "particles_of h v = (case get_obj h v of Some (Particles xs) \<Rightarrow> Some xs | _ \<Rightarrow> None)"

definition isinstance_Particles :: "('a, 'o, 's) heap \<Rightarrow> ('a, 'o) pyval \<Rightarrow> bool" where
  "isinstance_Particles h v = (case particles_of h v of Some xs \<Rightarrow> True | None \<Rightarrow> False)"

text \<open>Modelled from the spec: \<open>add\<close> appends the state to the belief object in place.\<close>

definition Particles_add ::
  "('a, 'o) pyval \<Rightarrow> 's \<Rightarrow> ('a, 'o, 's) world \<Rightarrow> ('e error + unit) \<times> ('a, 'o, 's) world" where
  "Particles_add v s w =
     (case v of
        Ref p \<Rightarrow>
          (case particles_of (heap w) v of
             Some xs \<Rightarrow> (Inr (), w\<lparr>heap := (heap w)[p := Particles (xs @ [s])]\<rparr>)
           | None \<Rightarrow> (Inl WrongObject, w))
      | _ \<Rightarrow> (Inl WrongObject, w))"

text \<open>
  Modelled from the spec: \<open>random\<close> returns a drawn element and fails if the belief is
  empty. The draw uses the next number of the random source, reduced to an index.
\<close>

definition Particles_random ::
  "('a, 'o) pyval \<Rightarrow> ('a, 'o, 's) world \<Rightarrow> ('e error + 's) \<times> ('a, 'o, 's) world" where
  "Particles_random v w =
     (case particles_of (heap w) v of
        None \<Rightarrow> (Inl WrongObject, w)
      | Some xs \<Rightarrow>
          if xs = [] then (Inl EmptySample, w)
          else (Inr (xs ! (draws w (drawn w) mod length xs)), w\<lparr>drawn := drawn w + 1\<rparr>))"

text \<open>
  \<^verbatim>\<open>copy.deepcopy\<close> of a belief value: a distribution object is duplicated into a new
  object, \<^verbatim>\<open>None\<close> and a history are immutable and stay as they are. Beliefs are never
  tree nodes or dictionaries; the model refuses to copy those.
\<close>

definition deepcopy ::
  "('a, 'o) pyval \<Rightarrow> ('a, 'o, 's) world \<Rightarrow> ('e error + ('a, 'o) pyval) \<times> ('a, 'o, 's) world" where
  "deepcopy v w =
     (case v of
        PyNone \<Rightarrow> (Inr PyNone, w)
      | Hist hs \<Rightarrow> (Inr (Hist hs), w)
      | Ref p \<Rightarrow>
          (case get_obj (heap w) v of
             Some (Particles xs) \<Rightarrow>
               (let (q, h') = alloc (heap w) (Particles xs) in (Inr (Ref q), w\<lparr>heap := h'\<rparr>))
           | Some OtherDistribution \<Rightarrow>
               (let (q, h') = alloc (heap w) OtherDistribution in (Inr (Ref q), w\<lparr>heap := h'\<rparr>))
           | _ \<Rightarrow> (Inl WrongObject, w)))"

subsection \<open>The particle reinvigorator\<close>

text \<open>
  Lines 151 and 152: the transform function, where one is given, is applied to the copy
  of the drawn state.
\<close>

definition apply_transform :: "('s \<Rightarrow> 's) option \<Rightarrow> 's \<Rightarrow> 's" where
  "apply_transform state_transform_func next_state =
     (case state_transform_func of None \<Rightarrow> next_state | Some f \<Rightarrow> f next_state)"

text \<open>
  The \<^verbatim>\<open>while\<close> loop of \<^verbatim>\<open>_particle_reinvigoration\<close> (lines 147 to 153): as long as
  \<^verbatim>\<open>new_particles\<close> is smaller than \<^verbatim>\<open>num_particles\<close>, draw from \<^verbatim>\<open>particles\<close>, copy,
  transform if a transform function is given, and add to \<^verbatim>\<open>new_particles\<close>.
\<close>

function reinvigoration_loop ::
  "('a, 'o) pyval \<Rightarrow> ('a, 'o) pyval \<Rightarrow> int \<Rightarrow> ('s \<Rightarrow> 's) option \<Rightarrow> ('a, 'o, 's) world
     \<Rightarrow> ('e error + unit) \<times> ('a, 'o, 's) world" where
  "reinvigoration_loop particles new_particles num_particles state_transform_func w =
     (case particles_of (heap w) new_particles of
        None \<Rightarrow> (Inl WrongObject, w)
      | Some new \<Rightarrow>
          if int (length new) < num_particles then
            (case Particles_random particles w of
               (Inl e, w1) \<Rightarrow> (Inl e, w1)
             | (Inr s, w1) \<Rightarrow>
                 (case Particles_add new_particles (apply_transform state_transform_func s) w1 of
                    (Inl e, w2) \<Rightarrow> (Inl e, w2)
                  | (Inr u, w2) \<Rightarrow>
                      reinvigoration_loop particles new_particles num_particles
                        state_transform_func w2))
          else (Inr (), w))"
  by pat_completeness auto
termination reinvigoration_loop
proof (relation "measure (\<lambda>(p, np, N, f, w).
         nat (N - int (length (case particles_of (heap w) np of Some xs \<Rightarrow> xs | None \<Rightarrow> []))))",
       goal_cases)
  case 1
  show ?case by simp
next
  case (2 particles new_particles num_particles state_transform_func w new x1 w1 s x2 w2 u)
  from 2(3) have same: "heap w1 = heap w"
    by (auto simp: Particles_random_def split: option.splits if_splits)
  from 2(1) same have before: "particles_of (heap w1) new_particles = Some new"
    by simp
  from 2(5) before have "particles_of (heap w2) new_particles
      = Some (new @ [apply_transform state_transform_func s])"
    by (auto simp: Particles_add_def particles_of_def get_obj_def
             split: pyval.splits option.splits if_splits obj.splits)
  with 2(1,2) show ?case by simp
qed

declare reinvigoration_loop.simps [simp del]

text \<open>
  \<^verbatim>\<open>_particle_reinvigoration\<close> (lines 131 to 154). The copy is made first; an empty
  copy raises; a copy larger than \<^verbatim>\<open>num_particles\<close> is returned as it is; otherwise
  the notice is printed and the loop runs. \<^verbatim>\<open>real_action\<close> and
  \<^verbatim>\<open>real_observation\<close> are parameters of the source that its body never reads.
\<close>

definition POMCP_particle_reinvigoration ::
  "('a, 'o) pyval \<Rightarrow> 'a \<Rightarrow> 'o \<Rightarrow> int \<Rightarrow> ('s \<Rightarrow> 's) option \<Rightarrow> ('a, 'o, 's) world
     \<Rightarrow> ('e error + ('a, 'o) pyval) \<times> ('a, 'o, 's) world" where
  "POMCP_particle_reinvigoration particles real_action real_observation num_particles
       state_transform_func w =
     (case deepcopy particles w of
        (Inl e, w1) \<Rightarrow> (Inl e, w1)
      | (Inr new_particles, w1) \<Rightarrow>
          (case particles_of (heap w1) new_particles of
             None \<Rightarrow> (Inl WrongObject, w1)
           | Some new \<Rightarrow>
               if length new = 0 then (Inl ParticleDeprivation, w1)
               else if int (length new) > num_particles then (Inr new_particles, w1)
               else
                 (case reinvigoration_loop particles new_particles num_particles
                         state_transform_func
                         (w1\<lparr>printed := printed w1 @
                               [ReinvigorationNotice (num_particles - int (length new))]\<rparr>) of
                    (Inl e, w2) \<Rightarrow> (Inl e, w2)
                  | (Inr u, w2) \<Rightarrow> (Inr new_particles, w2))))"

subsection \<open>Belief-carrying tree nodes\<close>

text \<open>
  The default value of the parameter \<^verbatim>\<open>belief\<close> of both constructors is the expression
  \<^verbatim>\<open>Particles([])\<close>. Python evaluates the default of a parameter once, when the
  \<^verbatim>\<open>def\<close> statement runs, and keeps the resulting object in the function: loading the
  module allocates one belief object for each of the two constructors.
\<close>

record module_defaults =
  VNodeParticles_belief :: addr
  RootVNodeParticles_belief :: addr

definition load_module :: "('a, 'o, 's) heap \<Rightarrow> module_defaults \<times> ('a, 'o, 's) heap" where
  "load_module h =
     (let (d1, h1) = alloc h (Particles []);
          (d2, h2) = alloc h1 (Particles [])
      in (\<lparr>VNodeParticles_belief = d1, RootVNodeParticles_belief = d2\<rparr>, h2))"

text \<open>
  \<^verbatim>\<open>VNodeParticles(num_visits, value, belief)\<close> (lines 33 to 37): a new node object
  whose \<^verbatim>\<open>belief\<close> attribute is the object passed in (no copy) and whose
  \<^verbatim>\<open>children\<close> attribute is a new empty dictionary.
\<close>

definition VNodeParticles ::
  "int \<Rightarrow> real \<Rightarrow> ('a, 'o) pyval \<Rightarrow> ('a, 'o, 's) heap \<Rightarrow> addr \<times> ('a, 'o, 's) heap" where
  "VNodeParticles nv v b h =
     (let (self, h1) = alloc h (VNode \<lparr>num_visits = nv, value_est = v, belief = b,
                                      children = PyNone, history = None\<rparr>);
          (d, h2) = alloc h1 (Dict Map.empty)
      in (self, h2[self := VNode \<lparr>num_visits = nv, value_est = v, belief = b,
                                  children = Ref d, history = None\<rparr>]))"

text \<open>The call \<^verbatim>\<open>VNodeParticles(num_visits, value)\<close>, which leaves \<^verbatim>\<open>belief\<close> to its default.\<close>

definition VNodeParticles_default_belief ::
  "module_defaults \<Rightarrow> int \<Rightarrow> real \<Rightarrow> ('a, 'o, 's) heap \<Rightarrow> addr \<times> ('a, 'o, 's) heap" where
  "VNodeParticles_default_belief D nv v h = VNodeParticles nv v (Ref (VNodeParticles_belief D)) h"

text \<open>
  \<^verbatim>\<open>RootVNodeParticles(num_visits, value, history, belief)\<close> (lines 45 to 47): the
  initialiser of \<^verbatim>\<open>VNodeParticles\<close>, then the \<^verbatim>\<open>history\<close> attribute.
\<close>

definition RootVNodeParticles ::
  "int \<Rightarrow> real \<Rightarrow> ('a, 'o) pyval \<Rightarrow> ('a, 'o) pyval \<Rightarrow> ('a, 'o, 's) heap
     \<Rightarrow> addr \<times> ('a, 'o, 's) heap" where
  "RootVNodeParticles nv v hist b h =
     (let (self, h1) = VNodeParticles nv v b h
      in (self, (case get_vnode h1 (Ref self) of
                   Some n \<Rightarrow> h1[self := VNode (n\<lparr>history := Some hist\<rparr>)]
                 | None \<Rightarrow> h1)))"

definition RootVNodeParticles_default_belief ::
  "module_defaults \<Rightarrow> int \<Rightarrow> real \<Rightarrow> ('a, 'o) pyval \<Rightarrow> ('a, 'o, 's) heap
     \<Rightarrow> addr \<times> ('a, 'o, 's) heap" where
  "RootVNodeParticles_default_belief D nv v hist h =
     RootVNodeParticles nv v hist (Ref (RootVNodeParticles_belief D)) h"

text \<open>
  \<^verbatim>\<open>RootVNodeParticles.from_vnode(vnode, history)\<close> (lines 48 to 52): a new root with
  the visit count, value and belief object of \<^verbatim>\<open>vnode\<close>, whose \<^verbatim>\<open>children\<close> attribute
  is then set to the dictionary of \<^verbatim>\<open>vnode\<close>. Reading the attributes of something that
  is not a node raises.
\<close>

definition from_vnode ::
  "('a, 'o) pyval \<Rightarrow> ('a, 'o) pyval \<Rightarrow> ('a, 'o, 's) heap
     \<Rightarrow> ('e error + addr) \<times> ('a, 'o, 's) heap" where
  "from_vnode vnode hist h =
     (case get_vnode h vnode of
        None \<Rightarrow> (Inl WrongObject, h)
      | Some n \<Rightarrow>
          (let (rootnode, h1) = RootVNodeParticles (num_visits n) (value_est n) hist (belief n) h
           in (Inr rootnode,
               (case get_vnode h1 (Ref rootnode) of
                  Some r \<Rightarrow> h1[rootnode := VNode (r\<lparr>children := children n\<rparr>)]
                | None \<Rightarrow> h1))))"

text \<open>
  Modelled from the spec: the indexing of a belief node by an action and of an action
  node by an observation belongs to the base classes of \<^verbatim>\<open>pomdp_py.algorithms.po_uct\<close>,
  which are not among the sources. By the spec a belief node maps actions to action
  nodes, and an action node maps observations to a child node or to the explicit
  never-simulated marker (\<^verbatim>\<open>None\<close>, here \<open>PyNone\<close>), which is distinct from a missing
  entry. A missing entry is reported as \<open>NoSuchChild\<close>. Indexing what is not a node
  (\<^verbatim>\<open>None\<close> among the rest, which Python refuses to subscript) is reported as
  \<open>WrongObject\<close>.
\<close>

definition VNode_getitem ::
  "('a, 'o, 's) heap \<Rightarrow> ('a, 'o) pyval \<Rightarrow> 'a \<Rightarrow> 'e error + ('a, 'o) pyval" where
  "VNode_getitem h v a =
     (case get_vnode h v of
        None \<Rightarrow> Inl WrongObject
      | Some n \<Rightarrow>
          (case get_obj h (children n) of
             Some (Dict d) \<Rightarrow> (case d a of None \<Rightarrow> Inl NoSuchChild | Some q \<Rightarrow> Inr q)
           | _ \<Rightarrow> Inl WrongObject))"

definition QNode_getitem ::
  "('a, 'o, 's) heap \<Rightarrow> ('a, 'o) pyval \<Rightarrow> 'o \<Rightarrow> 'e error + ('a, 'o) pyval" where
  "QNode_getitem h q ob =
     (case get_obj h q of
        Some (QNode m) \<Rightarrow> (case m ob of None \<Rightarrow> Inl NoSuchChild | Some c \<Rightarrow> Inr c)
      | _ \<Rightarrow> Inl WrongObject)"

text \<open>The expression \<^verbatim>\<open>agent.tree[real_action][real_observation]\<close>.\<close>

definition tree_lookup ::
  "('a, 'o, 's) heap \<Rightarrow> ('a, 'o) pyval \<Rightarrow> 'a \<Rightarrow> 'o \<Rightarrow> 'e error + ('a, 'o) pyval" where
  "tree_lookup h t a ob =
     (case VNode_getitem h t a of
        Inl e \<Rightarrow> Inl e
      | Inr q \<Rightarrow> QNode_getitem h q ob)"

text \<open>The assignment \<^verbatim>\<open>node.belief = b\<close> to a tree node.\<close>

definition set_node_belief ::
  "('a, 'o) pyval \<Rightarrow> ('a, 'o) pyval \<Rightarrow> ('a, 'o, 's) world
     \<Rightarrow> ('e error + unit) \<times> ('a, 'o, 's) world" where
  "set_node_belief node b w =
     (case node of
        Ref p \<Rightarrow>
          (case get_vnode (heap w) node of
             Some n \<Rightarrow> (Inr (), w\<lparr>heap := (heap w)[p := VNode (n\<lparr>belief := b\<rparr>)]\<rparr>)
           | None \<Rightarrow> (Inl WrongObject, w))
      | _ \<Rightarrow> (Inl WrongObject, w))"

text \<open>
  Modelled from the spec: the agent's belief setter (\<^verbatim>\<open>Agent.set_belief\<close> of
  \<^verbatim>\<open>pomdp_py.framework\<close>, not among the sources) stores the given belief object as the
  agent's belief.
\<close>

definition set_belief :: "('a, 'o) pyval \<Rightarrow> ('a, 'o, 's) world \<Rightarrow> ('a, 'o, 's) world" where
  "set_belief b w = w\<lparr>agent := (agent w)\<lparr>agent_belief := b\<rparr>\<rparr>"

subsection \<open>The planner\<close>

text \<open>
  The base engine \<^verbatim>\<open>POUCT\<close> (\<^verbatim>\<open>pomdp_py.algorithms.po_uct\<close>) is not among the sources.
  Its methods \<^verbatim>\<open>plan\<close>, \<^verbatim>\<open>_expand_vnode\<close> and \<^verbatim>\<open>_simulate\<close> are parameters of the
  functions below: arbitrary functions on the state, which return a result or an
  exception of the engine's own (of type \<open>'e\<close>, passed on as \<open>EngineError\<close>).
\<close>

text \<open>
  \<^verbatim>\<open>_expand_vnode\<close> (lines 156 to 158) hands the node's own belief to the base
  engine's expansion as the action-prior argument, whatever \<^verbatim>\<open>action_prior_args\<close> were
  passed in, and \<^verbatim>\<open>state\<close> as it is.
\<close>

definition POMCP_expand_vnode ::
  "(('a, 'o) pyval \<Rightarrow> ('a, 'o) history \<Rightarrow> 's option \<Rightarrow> ('a, 'o) pyval \<Rightarrow> ('a, 'o, 's) world
      \<Rightarrow> ('e + unit) \<times> ('a, 'o, 's) world)
     \<Rightarrow> ('a, 'o) pyval \<Rightarrow> ('a, 'o) history \<Rightarrow> 's option \<Rightarrow> ('a, 'o, 's) world
     \<Rightarrow> ('e error + unit) \<times> ('a, 'o, 's) world" where
  "POMCP_expand_vnode POUCT_expand_vnode vnode hist state w =
     (case get_vnode (heap w) vnode of
        None \<Rightarrow> (Inl WrongObject, w)
      | Some n \<Rightarrow>
          (case POUCT_expand_vnode vnode hist state (belief n) w of
             (Inl e, w1) \<Rightarrow> (Inl (EngineError e), w1)
           | (Inr u, w1) \<Rightarrow> (Inr u, w1)))"

text \<open>
  \<^verbatim>\<open>plan\<close> (lines 84 to 89): the check of the representation, then the base engine's
  \<^verbatim>\<open>plan\<close>.
\<close>

definition POMCP_plan ::
  "('p \<Rightarrow> ('a, 'o, 's) world \<Rightarrow> ('e + 'a) \<times> ('a, 'o, 's) world)
     \<Rightarrow> 'p \<Rightarrow> ('a, 'o, 's) world \<Rightarrow> ('e error + 'a) \<times> ('a, 'o, 's) world" where
  "POMCP_plan POUCT_plan action_prior_args w =
     (if \<not> isinstance_Particles (heap w) (agent_belief (agent w))
      then (Inl RepresentationMismatch, w)
      else
        (case POUCT_plan action_prior_args w of
           (Inl e, w1) \<Rightarrow> (Inl (EngineError e), w1)
         | (Inr a, w1) \<Rightarrow> (Inr a, w1)))"

text \<open>
  Lines 112 to 119 of \<^verbatim>\<open>update\<close>: the child becomes the new root, which is stored in
  \<^verbatim>\<open>agent.tree\<close>; its belief is reinvigorated to the size of the agent's initial belief
  (the arguments of the call are evaluated first, among them
  \<^verbatim>\<open>len(agent.init_belief.particles)\<close>); the result becomes the agent's belief.
\<close>

definition update_transplant ::
  "('a, 'o) pyval \<Rightarrow> 'a \<Rightarrow> 'o \<Rightarrow> ('s \<Rightarrow> 's) option \<Rightarrow> ('a, 'o, 's) world
     \<Rightarrow> ('e error + unit) \<times> ('a, 'o, 's) world" where
  "update_transplant child real_action real_observation state_transform_func w =
     (case from_vnode child (Hist (agent_history (agent w))) (heap w) of
        (Inl e, h1) \<Rightarrow> (Inl e, w\<lparr>heap := h1\<rparr>)
      | (Inr r, h1) \<Rightarrow>
          (let w1 = w\<lparr>heap := h1, agent := (agent w)\<lparr>tree := Some (Ref r)\<rparr>\<rparr>
           in case get_vnode (heap w1) (Ref r) of
                None \<Rightarrow> (Inl WrongObject, w1)
              | Some n \<Rightarrow>
                  (case particles_of (heap w1) (init_belief (agent w1)) of
                     None \<Rightarrow> (Inl WrongObject, w1)
                   | Some init \<Rightarrow>
                       (case POMCP_particle_reinvigoration (belief n) real_action
                               real_observation (int (length init)) state_transform_func w1 of
                          (Inl e, w2) \<Rightarrow> (Inl e, w2)
                        | (Inr b, w2) \<Rightarrow> (Inr (), set_belief b w2)))))"

text \<open>
  Lines 120 to 129 of \<^verbatim>\<open>update\<close>. If \<^verbatim>\<open>agent.tree\<close> is \<^verbatim>\<open>None\<close>, a new root is built
  and expanded; the source passes its arguments by position, so that the copy of the
  agent's belief arrives as \<^verbatim>\<open>history\<close> and the agent's history as \<^verbatim>\<open>belief\<close>.
  Otherwise the root's belief becomes a copy of the agent's belief.
\<close>

definition update_install ::
  "(('a, 'o) pyval \<Rightarrow> ('a, 'o) history \<Rightarrow> 's option \<Rightarrow> ('a, 'o) pyval \<Rightarrow> ('a, 'o, 's) world
      \<Rightarrow> ('e + unit) \<times> ('a, 'o, 's) world)
     \<Rightarrow> planner \<Rightarrow> ('a, 'o, 's) world \<Rightarrow> ('e error + unit) \<times> ('a, 'o, 's) world" where
  "update_install POUCT_expand_vnode self w =
     (case tree (agent w) of
        None \<Rightarrow> (Inl WrongObject, w)
      | Some t \<Rightarrow>
          if t = PyNone then
            (case deepcopy (agent_belief (agent w)) w of
               (Inl e, w1) \<Rightarrow> (Inl e, w1)
             | (Inr c, w1) \<Rightarrow>
                 (let (r, h2) = RootVNodeParticles (num_visits_init self) (value_init self)
                                  c (Hist (agent_history (agent w1))) (heap w1);
                      w2 = w1\<lparr>heap := h2, agent := (agent w1)\<lparr>tree := Some (Ref r)\<rparr>\<rparr>
                  in POMCP_expand_vnode POUCT_expand_vnode (Ref r)
                       (agent_history (agent w2)) None w2))
          else
            (case deepcopy (agent_belief (agent w)) w of
               (Inl e, w1) \<Rightarrow> (Inl e, w1)
             | (Inr c, w1) \<Rightarrow> set_node_belief t c w1))"

text \<open>
  \<^verbatim>\<open>update\<close> (lines 91 to 129). The slot \<^verbatim>\<open>agent.tree[real_action][real_observation]\<close>
  is read at line 107 and again at line 112, with nothing changed in between; the model
  reads it once. \<^verbatim>\<open>action_prior_args\<close> only reaches \<^verbatim>\<open>_expand_vnode\<close>, which does
  not read it, and is left out.
\<close>

definition POMCP_update ::
  "(('a, 'o) pyval \<Rightarrow> ('a, 'o) history \<Rightarrow> 's option \<Rightarrow> ('a, 'o) pyval \<Rightarrow> ('a, 'o, 's) world
      \<Rightarrow> ('e + unit) \<times> ('a, 'o, 's) world)
     \<Rightarrow> planner \<Rightarrow> 'a \<Rightarrow> 'o \<Rightarrow> ('s \<Rightarrow> 's) option \<Rightarrow> ('a, 'o, 's) world
     \<Rightarrow> ('e error + unit) \<times> ('a, 'o, 's) world" where
  "POMCP_update POUCT_expand_vnode self real_action real_observation state_transform_func w =
     (if \<not> isinstance_Particles (heap w) (agent_belief (agent w))
      then (Inl RepresentationMismatch, w)
      else
        (case tree (agent w) of
           None \<Rightarrow> (Inr (), w\<lparr>printed := printed w @ [WarnNoTree]\<rparr>)
         | Some t \<Rightarrow>
             (case tree_lookup (heap w) t real_action real_observation of
                Inl e \<Rightarrow> (Inl e, w)
              | Inr child \<Rightarrow>
                  if child = PyNone then (Inl ParticleDeprivation, w)
                  else
                    (case update_transplant child real_action real_observation
                            state_transform_func w of
                       (Inl e, w3) \<Rightarrow> (Inl e, w3)
                     | (Inr u, w3) \<Rightarrow> update_install POUCT_expand_vnode self w3))))"

text \<open>\<^verbatim>\<open>_sample_belief\<close> (lines 160 to 161): a draw from the belief of the agent's tree.\<close>

definition POMCP_sample_belief ::
  "('a, 'o, 's) world \<Rightarrow> ('e error + 's) \<times> ('a, 'o, 's) world" where
  "POMCP_sample_belief w =
     (case tree (agent w) of
        None \<Rightarrow> (Inl WrongObject, w)
      | Some t \<Rightarrow>
          (case get_vnode (heap w) t of
             None \<Rightarrow> (Inl WrongObject, w)
           | Some n \<Rightarrow> Particles_random (belief n) w))"

text \<open>
  \<^verbatim>\<open>_simulate\<close> (lines 163 to 167): the base engine's \<^verbatim>\<open>_simulate\<close>, called with empty
  action-prior arguments; after it has returned, at depth 1 and with a root, the state
  is added to the root's belief. The parameter \<^verbatim>\<open>root\<close> is called \<open>root_node\<close>.
\<close>

definition POMCP_simulate ::
  "('s \<Rightarrow> ('a, 'o) history \<Rightarrow> ('a, 'o) pyval \<Rightarrow> ('a, 'o) pyval \<Rightarrow> 'o option \<Rightarrow> int
      \<Rightarrow> ('a, 'o, 's) world \<Rightarrow> ('e + real) \<times> ('a, 'o, 's) world)
     \<Rightarrow> 's \<Rightarrow> ('a, 'o) history \<Rightarrow> ('a, 'o) pyval \<Rightarrow> ('a, 'o) pyval \<Rightarrow> 'o option \<Rightarrow> int
     \<Rightarrow> ('a, 'o, 's) world \<Rightarrow> ('e error + real) \<times> ('a, 'o, 's) world" where
  "POMCP_simulate POUCT_simulate state hist root_node parent observation depth w =
     (case POUCT_simulate state hist root_node parent observation depth w of
        (Inl e, w1) \<Rightarrow> (Inl (EngineError e), w1)
      | (Inr total_reward, w1) \<Rightarrow>
          if depth = 1 \<and> root_node \<noteq> PyNone then
            (case get_vnode (heap w1) root_node of
               None \<Rightarrow> (Inl WrongObject, w1)
             | Some n \<Rightarrow>
                 (case Particles_add (belief n) state w1 of
                    (Inl e, w2) \<Rightarrow> (Inl e, w2)
                  | (Inr u, w2) \<Rightarrow> (Inr total_reward, w2)))
          else (Inr total_reward, w1))"

text \<open>
  \<^verbatim>\<open>_VNode\<close> (lines 169 to 186). \<open>agent_arg = None\<close> is the call without an agent,
  \<open>is_root\<close> the parameter \<^verbatim>\<open>root\<close>. A
  root takes the agent's history and a copy of its belief; any other node takes a new
  empty belief when there is no agent, and a copy of the agent's belief otherwise.
\<close>

definition POMCP_VNode ::
  "planner \<Rightarrow> ('a, 'o) agent option \<Rightarrow> bool \<Rightarrow> ('a, 'o, 's) world
     \<Rightarrow> ('e error + ('a, 'o) pyval) \<times> ('a, 'o, 's) world" where
  "POMCP_VNode self agent_arg is_root w =
     (if is_root then
        (case agent_arg of
           None \<Rightarrow> (Inl WrongObject, w)
         | Some ag \<Rightarrow>
             (case deepcopy (agent_belief ag) w of
                (Inl e, w1) \<Rightarrow> (Inl e, w1)
              | (Inr b, w1) \<Rightarrow>
                  (let (r, h2) = RootVNodeParticles (num_visits_init self) (value_init self)
                                   (Hist (agent_history ag)) b (heap w1)
                   in (Inr (Ref r), w1\<lparr>heap := h2\<rparr>))))
      else
        (case agent_arg of
           None \<Rightarrow>
             (let (b, h1) = alloc (heap w) (Particles []);
                  (n, h2) = VNodeParticles (num_visits_init self) (value_init self) (Ref b) h1
              in (Inr (Ref n), w\<lparr>heap := h2\<rparr>))
         | Some ag \<Rightarrow>
             (case deepcopy (agent_belief ag) w of
                (Inl e, w1) \<Rightarrow> (Inl e, w1)
              | (Inr b, w1) \<Rightarrow>
                  (let (n, h2) = VNodeParticles (num_visits_init self) (value_init self) b
                                   (heap w1)
                   in (Inr (Ref n), w1\<lparr>heap := h2\<rparr>)))))"

subsection \<open>Example states\<close>

text \<open>
  Concrete states, with natural numbers for actions, observations and states, on which
  the properties below are instantiated. \<open>belief_world b\<close> holds one belief object
  with the particles \<open>b\<close>, at address 0, which is the agent's belief.
\<close>

definition example_planner :: planner where
  "example_planner = \<lparr>num_visits_init = 1, value_init = 0\<rparr>"

definition belief_world :: "nat list \<Rightarrow> (nat, nat, nat) world" where
  "belief_world b =
     \<lparr>heap = [Particles b],
      agent = \<lparr>agent_belief = Ref 0, agent_history = [], tree = None, init_belief = Ref 0\<rparr>,
      printed = [], draws = (\<lambda>i. i), drawn = 0\<rparr>"

text \<open>
  A state after planning and one real step with action 0 and observation 0. The agent's
  belief and initial belief is the object 0, with two particles. The root (object 7, with
  the belief 6) has one action node (object 4) under action 0, whose slot for observation
  0 holds the node 2 with the three particles of object 1 and whose slot for observation
  1 holds the never-simulated marker. Object 8 is a belief that is not made of particles.
\<close>

definition tree_heap :: "(nat, nat, nat) heap" where
  "tree_heap =
     [Particles [1, 2],
      Particles [5, 6, 7],
      VNode \<lparr>num_visits = 3, value_est = 0, belief = Ref 1, children = Ref 3, history = None\<rparr>,
      Dict Map.empty,
      QNode [0 \<mapsto> Ref 2, 1 \<mapsto> PyNone],
      Dict [0 \<mapsto> Ref 4],
      Particles [1, 2],
      VNode \<lparr>num_visits = 9, value_est = 0, belief = Ref 6, children = Ref 5,
             history = Some (Hist [])\<rparr>,
      OtherDistribution]"

definition tree_world :: "(nat, nat, nat) world" where
  "tree_world =
     \<lparr>heap = tree_heap,
      agent = \<lparr>agent_belief = Ref 0, agent_history = [(0, 0)], tree = Some (Ref 7),
               init_belief = Ref 0\<rparr>,
      printed = [], draws = (\<lambda>i. i), drawn = 0\<rparr>"

text \<open>The same state with an agent whose belief is the object 8.\<close>

definition mismatch_world :: "(nat, nat, nat) world" where
  "mismatch_world = tree_world\<lparr>agent := (agent tree_world)\<lparr>agent_belief := Ref 8\<rparr>\<rparr>"

text \<open>The same state with an agent that has no attribute \<^verbatim>\<open>tree\<close>.\<close>

definition treeless_world :: "(nat, nat, nat) world" where
  "treeless_world = tree_world\<lparr>agent := (agent tree_world)\<lparr>tree := None\<rparr>\<rparr>"

text \<open>The same state with an agent whose attribute \<^verbatim>\<open>tree\<close> holds \<^verbatim>\<open>None\<close>.\<close>

definition none_tree_world :: "(nat, nat, nat) world" where
  "none_tree_world = tree_world\<lparr>agent := (agent tree_world)\<lparr>tree := Some PyNone\<rparr>\<rparr>"

text \<open>Stand-ins for the base engine: they return at once and change nothing.\<close>

definition idle_plan :: "unit \<Rightarrow> (nat, nat, nat) world \<Rightarrow> (unit + nat) \<times> (nat, nat, nat) world" where
  "idle_plan action_prior_args w = (Inr 0, w)"

definition idle_expand ::
  "(nat, nat) pyval \<Rightarrow> (nat, nat) history \<Rightarrow> nat option \<Rightarrow> (nat, nat) pyval
     \<Rightarrow> (nat, nat, nat) world \<Rightarrow> (unit + unit) \<times> (nat, nat, nat) world" where
  "idle_expand vnode hist state b w = (Inr (), w)"

definition idle_simulate ::
  "nat \<Rightarrow> (nat, nat) history \<Rightarrow> (nat, nat) pyval \<Rightarrow> (nat, nat) pyval \<Rightarrow> nat option \<Rightarrow> int
     \<Rightarrow> (nat, nat, nat) world \<Rightarrow> (unit + real) \<times> (nat, nat, nat) world" where
  "idle_simulate state hist root_node parent observation depth w = (Inr 1, w)"

text \<open>
  The module is loaded into an empty heap, and \<^verbatim>\<open>VNodeParticles(1, 0)\<close> is called
  twice, each time without a \<^verbatim>\<open>belief\<close> argument: the two nodes and the heap after
  the second call.
\<close>

definition two_default_nodes :: "(addr \<times> addr) \<times> (nat, nat, nat) heap" where
  "two_default_nodes =
     (let (D, h0) = load_module [];
          (n1, h1) = VNodeParticles_default_belief D 1 0 h0;
          (n2, h2) = VNodeParticles_default_belief D 1 0 h1
      in ((n1, n2), h2))"

definition two_default_nodes_world :: "(nat, nat, nat) world" where
  "two_default_nodes_world =
     \<lparr>heap = snd two_default_nodes,
      agent = \<lparr>agent_belief = PyNone, agent_history = [], tree = None, init_belief = PyNone\<rparr>,
      printed = [], draws = (\<lambda>i. i), drawn = 0\<rparr>"

section \<open>Properties\<close>

subsection \<open>Heap and belief objects\<close>

lemma get_obj_append:
  "p < length h \<Longrightarrow> get_obj (h @ ys) (Ref p) = get_obj h (Ref p)"
  by (simp add: get_obj_def nth_append)

lemma get_obj_new: "get_obj (h @ [x]) (Ref (length h)) = Some x"
  by (simp add: get_obj_def)

lemma particles_of_Ref:
  "particles_of h v = Some xs \<Longrightarrow> \<exists>p. v = Ref p \<and> p < length h \<and> h ! p = Particles xs"
  by (auto simp: particles_of_def get_obj_def split: pyval.splits if_splits option.splits obj.splits)

lemma particles_of_RefI:
  "p < length h \<Longrightarrow> h ! p = Particles xs \<Longrightarrow> particles_of h (Ref p) = Some xs"
  by (simp add: particles_of_def get_obj_def)

lemma deepcopy_Particles:
  assumes "particles_of (heap w) v = Some xs"
  shows "deepcopy v w = (Inr (Ref (length (heap w))), w\<lparr>heap := heap w @ [Particles xs]\<rparr>)"
proof -
  from particles_of_Ref [OF assms] obtain p where
    v: "v = Ref p" and p: "p < length (heap w)" and hp: "heap w ! p = Particles xs"
    by blast
  then show ?thesis
    by (simp add: deepcopy_def get_obj_def alloc_def)
qed

lemma reinvigoration_loop_result:
  assumes "particles_of (heap w) particles = Some b" and "b \<noteq> []"
    and "particles_of (heap w) (Ref q) = Some new" and "particles \<noteq> Ref q"
  shows "reinvigoration_loop particles (Ref q) N f w =
           ((Inr () :: 'e error + unit), (w :: ('a, 'o, 's) world)\<lparr>heap := (heap w)[q := Particles (new @
                map (\<lambda>j. apply_transform f (b ! (draws w (drawn w + j) mod length b)))
                  [0..<nat (N - int (length new))])],
               drawn := drawn w + nat (N - int (length new))\<rparr>)"
  using assms
proof (induction "nat (N - int (length new))" arbitrary: w new)
  case 0
  then have stop: "\<not> int (length new) < N" by simp
  from particles_of_Ref [OF "0.prems"(3)] have "(heap w)[q := Particles new] = heap w"
    by (auto simp: list_update_same_conv)
  with 0 stop show ?case
    by (subst reinvigoration_loop.simps) simp
next
  case (Suc n)
  then have more: "int (length new) < N" by simp
  let ?s = "apply_transform f (b ! (draws w (drawn w) mod length b))"
  let ?w1 = "w\<lparr>drawn := drawn w + 1\<rparr>"
  let ?w2 = "?w1\<lparr>heap := (heap ?w1)[q := Particles (new @ [?s])]\<rparr>"
  from particles_of_Ref [OF Suc.prems(3)] have q: "q < length (heap w)" by auto
  from particles_of_Ref [OF Suc.prems(1)] Suc.prems(4) obtain p where
    p: "particles = Ref p" "p \<noteq> q" "p < length (heap w)" "heap w ! p = Particles b"
    by auto
  have r: "Particles_random particles w
      = ((Inr (b ! (draws w (drawn w) mod length b)) :: 'e error + 's), ?w1)"
    using Suc.prems(1,2) by (simp add: Particles_random_def)
  have a: "Particles_add (Ref q) ?s ?w1 = ((Inr () :: 'e error + unit), ?w2)"
    using Suc.prems(3) by (simp add: Particles_add_def)
  have step: "(reinvigoration_loop particles (Ref q) N f w :: ('e error + unit) \<times> _)
      = reinvigoration_loop particles (Ref q) N f ?w2"
    using Suc.prems(3) more r a
    by (subst reinvigoration_loop.simps) simp
  have n: "n = nat (N - int (length (new @ [?s])))"
    using Suc.hyps(2) by simp
  have b2: "particles_of (heap ?w2) particles = Some b"
    using p by (simp add: particles_of_RefI)
  have new2: "particles_of (heap ?w2) (Ref q) = Some (new @ [?s])"
    using q by (simp add: particles_of_RefI)
  have cnt: "nat (N - int (length new)) = Suc (nat (N - int (length (new @ [?s]))))"
    using Suc.hyps(2) by simp
  show ?case
    unfolding step Suc.hyps(1) [OF n b2 Suc.prems(2) new2 Suc.prems(4)] cnt
    by (simp add: map_upt_Suc del: upt_Suc)
qed

lemma reinvigoration_empty:
  assumes "particles_of (heap w) v = Some []"
  shows "POMCP_particle_reinvigoration v a ob N f w =
           ((Inl ParticleDeprivation :: 'e error + ('a, 'o) pyval),
            (w :: ('a, 'o, 's) world)\<lparr>heap := heap w @ [Particles []]\<rparr>)"
  by (simp add: POMCP_particle_reinvigoration_def deepcopy_Particles [OF assms]
        particles_of_def get_obj_new)

lemma reinvigoration_oversize:
  assumes "particles_of (heap w) v = Some b" and "b \<noteq> []" and "N < int (length b)"
  shows "POMCP_particle_reinvigoration v a ob N f w =
           ((Inr (Ref (length (heap w))) :: 'e error + ('a, 'o) pyval),
            (w :: ('a, 'o, 's) world)\<lparr>heap := heap w @ [Particles b]\<rparr>)"
proof -
  from assms(2,3) show ?thesis
    by (simp add: POMCP_particle_reinvigoration_def deepcopy_Particles [OF assms(1)]
          particles_of_def get_obj_new)
qed

lemma reinvigoration_grow:
  assumes "particles_of (heap w) v = Some b" and "b \<noteq> []" and "int (length b) \<le> N"
  shows "POMCP_particle_reinvigoration v a ob N f w =
           ((Inr (Ref (length (heap w))) :: 'e error + ('a, 'o) pyval),
            (w :: ('a, 'o, 's) world)\<lparr>heap := heap w @ [Particles (b @
                 map (\<lambda>j. apply_transform f (b ! (draws w (drawn w + j) mod length b)))
                   [0..<nat N - length b])],
               printed := printed w @ [ReinvigorationNotice (N - int (length b))],
               drawn := drawn w + (nat N - length b)\<rparr>)"
proof -
  let ?q = "length (heap w)"
  let ?w1 = "w\<lparr>heap := heap w @ [Particles b]\<rparr>"
  let ?w1' = "?w1\<lparr>printed := printed ?w1 @ [ReinvigorationNotice (N - int (length b))]\<rparr>"
  from particles_of_Ref [OF assms(1)] obtain p where
    p: "v = Ref p" "p < ?q" "heap w ! p = Particles b"
    by blast
  have orig: "particles_of (heap ?w1') v = Some b"
    using p by (simp add: particles_of_RefI nth_append)
  have copy: "particles_of (heap ?w1') (Ref ?q) = Some b"
    by (simp add: particles_of_RefI)
  have distinct: "v \<noteq> Ref ?q"
    using p by simp
  have cnt: "nat (N - int (length b)) = nat N - length b"
    by simp
  have loop: "reinvigoration_loop v (Ref ?q) N f ?w1' =
      ((Inr () :: 'e error + unit), ?w1'\<lparr>heap := (heap ?w1')[?q := Particles (b @
          map (\<lambda>j. apply_transform f (b ! (draws ?w1' (drawn ?w1' + j) mod length b)))
            [0..<nat (N - int (length b))])],
        drawn := drawn ?w1' + nat (N - int (length b))\<rparr>)"
    by (rule reinvigoration_loop_result [OF orig assms(2) copy distinct])
  have "POMCP_particle_reinvigoration v a ob N f w =
      (case (reinvigoration_loop v (Ref ?q) N f ?w1' :: ('e error + unit) \<times> _) of
         (Inl e, w2) \<Rightarrow> (Inl e, w2)
       | (Inr u, w2) \<Rightarrow> (Inr (Ref ?q), w2))"
    using assms(2,3)
    by (simp add: POMCP_particle_reinvigoration_def deepcopy_Particles [OF assms(1)]
          particles_of_def get_obj_new)
  then show ?thesis
    unfolding loop cnt by simp
qed

subsection \<open>The reinvigorator\<close>

text \<open>
  Claim C7. For every positive target \<open>N\<close>, the reinvigoration of an empty particle
  belief fails with the particle-deprivation error.
\<close>

theorem reinvigoration_of_empty_belief_fails:
  assumes "particles_of (heap w) particles = Some []" and "0 < N"
  shows "fst (POMCP_particle_reinvigoration particles a ob N f w)
           = (Inl ParticleDeprivation :: 'e error + ('a, 'o) pyval)"
  by (simp add: reinvigoration_empty [OF assms(1)])

theorem reinvigoration_of_empty_belief_fails_witness:
  "particles_of (heap (belief_world [])) (Ref 0) = Some [] \<and> (0::int) < 3 \<and>
   fst (POMCP_particle_reinvigoration (Ref 0) 0 0 3 None (belief_world []))
     = (Inl ParticleDeprivation :: unit error + (nat, nat) pyval)"
proof -
  have p: "particles_of (heap (belief_world [])) (Ref 0) = Some []"
    by (simp add: belief_world_def particles_of_def get_obj_def)
  have n: "(0::int) < 3" by simp
  from reinvigoration_of_empty_belief_fails [OF p n] p n show ?thesis by simp
qed

text \<open>
  Claim C6. For a belief \<open>b\<close> and a positive target \<open>N\<close> with \<open>N\<close> at most the size
  of \<open>b\<close>, the reinvigoration returns a new object (one that was not allocated before
  the call and so is no object of the caller's) whose particles are those of \<open>b\<close>: no
  particle is added, none is removed, no draw is made, and \<open>b\<close> itself and every other
  object are left as they were.
\<close>

theorem reinvigoration_at_or_above_target_copies:
  assumes "particles_of (heap w) particles = Some b" and "0 < N" and "N \<le> int (length b)"
  shows "\<exists>w'. POMCP_particle_reinvigoration particles a ob N f w
                 = ((Inr (Ref (length (heap w))) :: 'e error + ('a, 'o) pyval), w') \<and>
              heap w' = heap w @ [Particles b] \<and>
              particles_of (heap w') (Ref (length (heap w))) = Some b \<and>
              particles_of (heap w') particles = Some b \<and>
              particles \<noteq> Ref (length (heap w)) \<and>
              get_obj (heap w) (Ref (length (heap w))) = None \<and>
              drawn w' = drawn w \<and> agent w' = agent w"
proof -
  from assms(2,3) have ne: "b \<noteq> []" by auto
  from particles_of_Ref [OF assms(1)] obtain p where
    p: "particles = Ref p" "p < length (heap w)" "heap w ! p = Particles b"
    by blast
  show ?thesis
  proof (cases "N < int (length b)")
    case True
    show ?thesis
      unfolding reinvigoration_oversize [OF assms(1) ne True]
      using p by (simp add: particles_of_RefI nth_append get_obj_def)
  next
    case False
    with assms(3) have eq: "int (length b) \<le> N" "nat N - length b = 0" by auto
    show ?thesis
      unfolding reinvigoration_grow [OF assms(1) ne eq(1)] eq(2)
      using p by (simp add: particles_of_RefI nth_append get_obj_def)
  qed
qed

theorem reinvigoration_at_or_above_target_copies_witness:
  "particles_of (heap (belief_world [10, 20, 30])) (Ref 0) = Some [10, 20, 30] \<and>
   (0::int) < 2 \<and> (2::int) \<le> int (length [10, 20, 30 :: nat]) \<and>
   (\<exists>w'. POMCP_particle_reinvigoration (Ref 0) 0 0 2 None (belief_world [10, 20, 30])
            = ((Inr (Ref 1) :: unit error + (nat, nat) pyval), w') \<and>
          heap w' = [Particles [10, 20, 30], Particles [10, 20, 30]])"
proof -
  have p: "particles_of (heap (belief_world [10, 20, 30])) (Ref 0) = Some [10, 20, 30]"
    by (simp add: belief_world_def particles_of_def get_obj_def)
  have n: "(0::int) < 2" "(2::int) \<le> int (length [10, 20, 30 :: nat])" by simp_all
  have l: "length (heap (belief_world [10, 20, 30])) = 1" "heap (belief_world [10, 20, 30]) = [Particles [10, 20, 30]]"
    by (simp_all add: belief_world_def)
  from reinvigoration_at_or_above_target_copies [OF p n, of 0 0 None, where 'e = unit]
  obtain w' where "POMCP_particle_reinvigoration (Ref 0) 0 0 2 None (belief_world [10, 20, 30])
            = ((Inr (Ref 1) :: unit error + (nat, nat) pyval), w')"
     "heap w' = [Particles [10, 20, 30], Particles [10, 20, 30]]"
    unfolding l by auto
  with p n show ?thesis by blast
qed

text \<open>
  Claim C4. For a nonempty belief \<open>b\<close> of size \<open>k\<close> and a target \<open>N\<close> above \<open>k\<close>, the
  reinvigoration returns a belief of size exactly \<open>N\<close>: the particles of \<open>b\<close> followed
  by \<open>N - k\<close> new ones. The \<open>j\<close>-th new particle is the (optionally transformed) element
  of the original \<open>b\<close> that the \<open>j\<close>-th draw of the random source selects, so each draw
  ranges over all of \<open>b\<close>, with replacement, and never over the particles added
  before it. The input belief is unchanged.
\<close>

theorem reinvigoration_below_target_grows:
  assumes "particles_of (heap w) particles = Some b" and "b \<noteq> []" and "int (length b) < N"
  shows "\<exists>w' r zs. POMCP_particle_reinvigoration particles a ob N f w
                      = ((Inr r :: 'e error + ('a, 'o) pyval), w') \<and>
              particles_of (heap w') r = Some (b @ zs) \<and>
              int (length (b @ zs)) = N \<and>
              int (length zs) = N - int (length b) \<and>
              zs = map (\<lambda>j. apply_transform f (b ! (draws w (drawn w + j) mod length b)))
                     [0..<nat N - length b] \<and>
              set zs \<subseteq> apply_transform f ` set b \<and>
              particles_of (heap w') particles = Some b"
proof -
  let ?zs = "map (\<lambda>j. apply_transform f (b ! (draws w (drawn w + j) mod length b)))
               [0..<nat N - length b]"
  from assms(3) have le: "int (length b) \<le> N" by simp
  from particles_of_Ref [OF assms(1)] obtain p where
    p: "particles = Ref p" "p < length (heap w)" "heap w ! p = Particles b"
    by blast
  have len: "int (length ?zs) = N - int (length b)"
    using assms(3) by simp
  have sub: "set ?zs \<subseteq> apply_transform f ` set b"
    using assms(2) by (auto simp: image_iff)
  let ?w' = "w\<lparr>heap := heap w @ [Particles (b @ ?zs)],
               printed := printed w @ [ReinvigorationNotice (N - int (length b))],
               drawn := drawn w + (nat N - length b)\<rparr>"
  have run: "POMCP_particle_reinvigoration particles a ob N f w
               = ((Inr (Ref (length (heap w))) :: 'e error + ('a, 'o) pyval), ?w')"
    by (rule reinvigoration_grow [OF assms(1,2) le])
  have h: "heap ?w' = heap w @ [Particles (b @ ?zs)]"
    by simp
  have new: "particles_of (heap ?w') (Ref (length (heap w))) = Some (b @ ?zs)"
    unfolding h by (simp add: particles_of_def get_obj_def)
  have old: "particles_of (heap ?w') particles = Some b"
    unfolding h using p by (simp add: particles_of_def get_obj_def nth_append)
  have total: "int (length (b @ ?zs)) = N"
    using assms(3) by simp
  from run new old total len sub show ?thesis
    by blast
qed

theorem reinvigoration_below_target_grows_witness:
  "particles_of (heap (belief_world [10, 20])) (Ref 0) = Some [10, 20] \<and>
   [10, 20 :: nat] \<noteq> [] \<and> int (length [10, 20 :: nat]) < 4 \<and>
   (\<exists>w' r. POMCP_particle_reinvigoration (Ref 0) 0 0 4 (Some Suc) (belief_world [10, 20])
              = ((Inr r :: unit error + (nat, nat) pyval), w') \<and>
            particles_of (heap w') r = Some [10, 20, 11, 21])"
proof -
  have p: "particles_of (heap (belief_world [10, 20])) (Ref 0) = Some [10, 20]"
    by (simp add: belief_world_def particles_of_def get_obj_def)
  have n: "[10, 20 :: nat] \<noteq> []" "int (length [10, 20 :: nat]) < 4"
    by simp_all
  have zs: "map (\<lambda>j. apply_transform (Some Suc)
                  ([10, 20] ! (draws (belief_world [10, 20]) (drawn (belief_world [10, 20]) + j)
                                 mod length [10, 20 :: nat])))
              [0..<nat 4 - length [10, 20 :: nat]] = [11, 21]"
    by (simp add: belief_world_def apply_transform_def upt_rec numeral_2_eq_2)
  from reinvigoration_below_target_grows [OF p n, of 0 0 "Some Suc", where 'e = unit]
  obtain w' r where
    "POMCP_particle_reinvigoration (Ref 0) 0 0 4 (Some Suc) (belief_world [10, 20])
       = ((Inr r :: unit error + (nat, nat) pyval), w')"
    "particles_of (heap w') r = Some [10, 20, 11, 21]"
    unfolding zs by auto
  with p n show ?thesis by blast
qed

subsection \<open>What the operations leave alone\<close>

lemma deepcopy_outcome:
  "deepcopy v w = (res, w') \<Longrightarrow>
     res \<noteq> Inl RepresentationMismatch \<and> agent w' = agent w"
  by (auto simp: deepcopy_def alloc_def split: pyval.splits option.splits obj.splits)

lemma Particles_random_outcome:
  "Particles_random v w = (res, w') \<Longrightarrow>
     res \<noteq> Inl RepresentationMismatch \<and> agent w' = agent w \<and> heap w' = heap w"
  by (auto simp: Particles_random_def split: option.splits if_splits)

lemma Particles_add_outcome:
  "Particles_add v s w = (res, w') \<Longrightarrow>
     res \<noteq> Inl RepresentationMismatch \<and> agent w' = agent w"
  by (auto simp: Particles_add_def split: pyval.splits option.splits)

lemma reinvigoration_loop_outcome:
  "reinvigoration_loop particles new_particles N f w = ((res :: 'e error + unit), w') \<Longrightarrow>
     res \<noteq> Inl RepresentationMismatch \<and> agent w' = agent w"
proof (induction particles new_particles N f w
         rule: reinvigoration_loop.induct [where 'd = 'e])
  case (1 particles new_particles num_particles state_transform_func w)
  show ?case
  proof (cases "particles_of (heap w) new_particles")
    case None
    with "1.prems" show ?thesis
      by (subst (asm) reinvigoration_loop.simps) auto
  next
    case (Some new)
    show ?thesis
    proof (cases "int (length new) < num_particles")
      case False
      with Some "1.prems" show ?thesis
        by (subst (asm) reinvigoration_loop.simps) auto
    next
      case True
      obtain r1 :: "'e error + _" and w1 where r: "Particles_random particles w = (r1, w1)"
        by (cases "Particles_random particles w :: ('e error + _) \<times> _")
      note ro = Particles_random_outcome [OF r]
      show ?thesis
      proof (cases r1)
        case (Inl e)
        with Some True r ro "1.prems" show ?thesis
          by (subst (asm) reinvigoration_loop.simps) auto
      next
        case (Inr s)
        obtain r2 :: "'e error + unit" and w2 where a: "Particles_add new_particles
            (apply_transform state_transform_func s) w1 = (r2, w2)"
          by (cases "Particles_add new_particles
            (apply_transform state_transform_func s) w1 :: ('e error + unit) \<times> _")
        note ao = Particles_add_outcome [OF a]
        show ?thesis
        proof (cases r2)
          case (Inl e)
          with Some True r Inr a ro ao "1.prems" show ?thesis
            by (subst (asm) reinvigoration_loop.simps) auto
        next
          case u: (Inr u)
          from Some True r Inr a u "1.prems"
          have rec: "reinvigoration_loop particles new_particles num_particles
                       state_transform_func w2 = (res, w')"
            by (subst (asm) reinvigoration_loop.simps) simp
          from "1.IH" [OF Some True r [symmetric] Inr a [symmetric] u rec] ro ao
          show ?thesis by simp
        qed
      qed
    qed
  qed
qed

lemma reinvigoration_outcome:
  assumes "POMCP_particle_reinvigoration v a ob N f w = ((res :: 'e error + ('a, 'o) pyval), w')"
  shows "res \<noteq> Inl RepresentationMismatch \<and> agent w' = agent w"
proof -
  obtain r1 :: "'e error + ('a, 'o) pyval" and w1 where d: "deepcopy v w = (r1, w1)"
    by (cases "deepcopy v w :: ('e error + ('a, 'o) pyval) \<times> _")
  note dc = deepcopy_outcome [OF d]
  show ?thesis
  proof (cases r1)
    case (Inl e)
    with assms d dc show ?thesis
      by (auto simp: POMCP_particle_reinvigoration_def)
  next
    case (Inr np)
    let ?w1' = "\<lambda>new. w1\<lparr>printed := printed w1 @
                   [ReinvigorationNotice (N - int (length (new :: 'b list)))]\<rparr>"
    have loop: "\<And>new r2 w2. reinvigoration_loop v np N f (?w1' new) = ((r2 :: 'e error + unit), w2)
                  \<Longrightarrow> r2 \<noteq> Inl RepresentationMismatch \<and> agent w2 = agent w"
      using reinvigoration_loop_outcome dc by fastforce
    from assms d Inr dc show ?thesis
      by (auto simp: POMCP_particle_reinvigoration_def
               split: option.splits if_splits prod.splits sum.splits dest: loop)
  qed
qed

lemma RootVNodeParticles_result:
  "RootVNodeParticles nv v hist b h =
     (length h,
      h @ [VNode \<lparr>num_visits = nv, value_est = v, belief = b,
                  children = Ref (Suc (length h)), history = Some hist\<rparr>,
           Dict Map.empty])"
  by (simp add: RootVNodeParticles_def VNodeParticles_def alloc_def get_vnode_def get_obj_def
        nth_append list_update_append)

lemma from_vnode_result:
  assumes "get_vnode h child = Some n"
  shows "from_vnode child hist h =
           (Inr (length h),
            h @ [VNode \<lparr>num_visits = num_visits n, value_est = value_est n, belief = belief n,
                        children = children n, history = Some hist\<rparr>,
                 Dict Map.empty])"
  using assms
  by (simp add: from_vnode_def RootVNodeParticles_result get_vnode_def get_obj_def
        nth_append list_update_append)

lemma from_vnode_fails:
  assumes "get_vnode h child = None"
  shows "from_vnode child hist h = (Inl WrongObject, h)"
  using assms by (simp add: from_vnode_def)

lemma update_transplant_unfold:
  assumes "get_vnode (heap w) child = Some n"
  shows "update_transplant child a ob f w =
     (case particles_of
             (heap w @ [VNode \<lparr>num_visits = num_visits n, value_est = value_est n,
                               belief = belief n, children = children n,
                               history = Some (Hist (agent_history (agent w)))\<rparr>,
                        Dict Map.empty])
             (init_belief (agent w)) of
        None \<Rightarrow>
          (Inl WrongObject,
           w\<lparr>heap := heap w @ [VNode \<lparr>num_visits = num_visits n, value_est = value_est n,
                                       belief = belief n, children = children n,
                                       history = Some (Hist (agent_history (agent w)))\<rparr>,
                                Dict Map.empty],
             agent := (agent w)\<lparr>tree := Some (Ref (length (heap w)))\<rparr>\<rparr>)
      | Some init \<Rightarrow>
          (case POMCP_particle_reinvigoration (belief n) a ob (int (length init)) f
                  (w\<lparr>heap := heap w @ [VNode \<lparr>num_visits = num_visits n,
                                       value_est = value_est n,
                                       belief = belief n, children = children n,
                                       history = Some (Hist (agent_history (agent w)))\<rparr>,
                                Dict Map.empty],
                     agent := (agent w)\<lparr>tree := Some (Ref (length (heap w)))\<rparr>\<rparr>) of
             (Inl e, w2) \<Rightarrow> (Inl e, w2)
           | (Inr b, w2) \<Rightarrow> (Inr (), set_belief b w2)))"
  by (simp add: update_transplant_def from_vnode_result [OF assms] Let_def get_vnode_def
        get_obj_def nth_append cong: option.case_cong)

lemma update_transplant_no_mismatch:
  assumes "update_transplant child a ob f w = ((res :: 'e error + unit), w3)"
  shows "res \<noteq> Inl RepresentationMismatch"
proof (cases "get_vnode (heap w) child")
  case None
  with assms show ?thesis
    by (auto simp: update_transplant_def from_vnode_fails)
next
  case (Some n)
  note u = assms [unfolded update_transplant_unfold [OF Some]]
  show ?thesis
  proof (cases "particles_of
             (heap w @ [VNode \<lparr>num_visits = num_visits n, value_est = value_est n,
                               belief = belief n, children = children n,
                               history = Some (Hist (agent_history (agent w)))\<rparr>,
                        Dict Map.empty])
             (init_belief (agent w))")
    case None
    with u show ?thesis by auto
  next
    case (Some init)
    obtain r2 :: "'e error + _" and w2 where
      r: "POMCP_particle_reinvigoration (belief n) a ob (int (length init)) f
            (w\<lparr>heap := heap w @ [VNode \<lparr>num_visits = num_visits n,
                                       value_est = value_est n,
                                       belief = belief n, children = children n,
                                       history = Some (Hist (agent_history (agent w)))\<rparr>,
                                Dict Map.empty],
               agent := (agent w)\<lparr>tree := Some (Ref (length (heap w)))\<rparr>\<rparr>) = (r2, w2)"
      by (rule prod.exhaust)
    from reinvigoration_outcome [OF r] have "r2 \<noteq> Inl RepresentationMismatch" by simp
    with u Some r show ?thesis
      by (cases r2) auto
  qed
qed

lemma update_transplant_tree:
  assumes "get_vnode (heap w) child = Some n"
    and "update_transplant child a ob f w = ((res :: 'e error + unit), w3)"
  shows "tree (agent w3) = Some (Ref (length (heap w)))"
proof -
  note u = assms(2) [unfolded update_transplant_unfold [OF assms(1)]]
  show ?thesis
  proof (cases "particles_of
             (heap w @ [VNode \<lparr>num_visits = num_visits n, value_est = value_est n,
                               belief = belief n, children = children n,
                               history = Some (Hist (agent_history (agent w)))\<rparr>,
                        Dict Map.empty])
             (init_belief (agent w))")
    case None
    with u show ?thesis by auto
  next
    case (Some init)
    obtain r2 :: "'e error + _" and w2 where
      r: "POMCP_particle_reinvigoration (belief n) a ob (int (length init)) f
            (w\<lparr>heap := heap w @ [VNode \<lparr>num_visits = num_visits n,
                                       value_est = value_est n,
                                       belief = belief n, children = children n,
                                       history = Some (Hist (agent_history (agent w)))\<rparr>,
                                Dict Map.empty],
               agent := (agent w)\<lparr>tree := Some (Ref (length (heap w)))\<rparr>\<rparr>) = (r2, w2)"
      by (rule prod.exhaust)
    from reinvigoration_outcome [OF r]
    have "agent w2 = (agent w)\<lparr>tree := Some (Ref (length (heap w)))\<rparr>" by simp
    with u Some r show ?thesis
      by (cases r2) (auto simp: set_belief_def)
  qed
qed

lemma set_node_belief_no_mismatch:
  "set_node_belief t c w = (res, w') \<Longrightarrow> res \<noteq> Inl RepresentationMismatch"
  by (auto simp: set_node_belief_def split: pyval.splits option.splits)

lemma POMCP_expand_vnode_no_mismatch:
  "POMCP_expand_vnode ex v hist st w = (res, w') \<Longrightarrow> res \<noteq> Inl RepresentationMismatch"
  by (auto simp: POMCP_expand_vnode_def split: option.splits prod.splits sum.splits)

lemma update_install_with_root:
  assumes "tree (agent w) = Some (Ref r)"
  shows "update_install ex self w =
           (case deepcopy (agent_belief (agent w)) w of
              (Inl e, w1) \<Rightarrow> (Inl e, w1)
            | (Inr c, w1) \<Rightarrow> set_node_belief (Ref r) c w1)"
  using assms by (simp add: update_install_def)

lemma update_install_no_mismatch:
  assumes "update_install ex self w = ((res :: 'e error + unit), w')"
  shows "res \<noteq> Inl RepresentationMismatch"
proof -
  obtain r1 :: "'e error + _" and w1 where d: "deepcopy (agent_belief (agent w)) w = (r1, w1)"
    by (rule prod.exhaust)
  from deepcopy_outcome [OF d] have r1: "r1 \<noteq> Inl RepresentationMismatch" by simp
  show ?thesis
  proof (cases "tree (agent w)")
    case None
    with assms show ?thesis by (auto simp: update_install_def)
  next
    case (Some t)
    show ?thesis
    proof (cases r1)
      case (Inl e)
      with assms Some d r1 show ?thesis
        by (auto simp: update_install_def split: if_splits)
    next
      case (Inr c)
      show ?thesis
      proof (cases "t = PyNone")
        case False
        with assms Some d Inr have "set_node_belief t c w1 = (res, w')"
          by (simp add: update_install_def)
        then show ?thesis by (rule set_node_belief_no_mismatch)
      next
        case True
        with assms Some d Inr obtain v hist st w2 where
          "POMCP_expand_vnode ex v hist st w2 = (res, w')"
          by (auto simp: update_install_def Let_def split: prod.splits)
        then show ?thesis by (rule POMCP_expand_vnode_no_mismatch)
      qed
    qed
  qed
qed

lemma tree_lookup_no_mismatch:
  "tree_lookup h t a ob \<noteq> Inl RepresentationMismatch"
  by (auto simp: tree_lookup_def VNode_getitem_def QNode_getitem_def
           split: option.splits obj.splits sum.splits)

lemma POMCP_update_no_mismatch:
  assumes "isinstance_Particles (heap w) (agent_belief (agent w))"
  shows "fst (POMCP_update ex self a ob f w) \<noteq> (Inl RepresentationMismatch :: 'e error + unit)"
proof (cases "tree (agent w)")
  case None
  with assms show ?thesis by (simp add: POMCP_update_def)
next
  case (Some t)
  show ?thesis
  proof (cases "tree_lookup (heap w) t a ob :: 'e error + _")
    case (Inl e)
    with tree_lookup_no_mismatch [of "heap w" t a ob, where 'a = 'e]
    have "e \<noteq> RepresentationMismatch" by auto
    with assms Some Inl show ?thesis by (simp add: POMCP_update_def)
  next
    case (Inr child)
    show ?thesis
    proof (cases "child = PyNone")
      case True
      with assms Some Inr show ?thesis by (simp add: POMCP_update_def)
    next
      case False
      obtain r3 :: "'e error + unit" and w3 where
        t: "update_transplant child a ob f w = (r3, w3)"
        by (rule prod.exhaust)
      note r3 = update_transplant_no_mismatch [OF t]
      show ?thesis
      proof (cases r3)
        case (Inl e)
        with assms Some Inr False t r3 show ?thesis by (simp add: POMCP_update_def)
      next
        case u: (Inr u)
        obtain r4 :: "'e error + unit" and w4 where
          i: "update_install ex self w3 = (r4, w4)"
          by (rule prod.exhaust)
        from update_install_no_mismatch [OF i] assms Some Inr False t u i
        show ?thesis by (simp add: POMCP_update_def)
      qed
    qed
  qed
qed

subsection \<open>The planner's update and plan\<close>

text \<open>
  An agent whose belief is made of particles and that has no attribute \<^verbatim>\<open>tree\<close>:
  \<^verbatim>\<open>update\<close> raises nothing and changes nothing. It returns normally, and the state
  after the call is the state before it with the warning added to what was printed
  (lines 103 to 105).
\<close>

lemma update_without_tree_attribute:
  assumes "isinstance_Particles (heap w) (agent_belief (agent w))"
    and "tree (agent w) = None"
  shows "POMCP_update ex self a ob f w = (Inr (), w\<lparr>printed := printed w @ [WarnNoTree]\<rparr>)"
  using assms by (simp add: POMCP_update_def)

lemma update_without_tree_attribute_example:
  "isinstance_Particles (heap treeless_world) (agent_belief (agent treeless_world)) \<and>
   tree (agent treeless_world) = None \<and>
   POMCP_update idle_expand example_planner 0 0 None treeless_world
     = (Inr (), treeless_world\<lparr>printed := printed treeless_world @ [WarnNoTree]\<rparr>)"
proof -
  have b: "isinstance_Particles (heap treeless_world) (agent_belief (agent treeless_world))"
    by (simp add: treeless_world_def tree_world_def tree_heap_def isinstance_Particles_def
          particles_of_def get_obj_def)
  have t: "tree (agent treeless_world) = None"
    by (simp add: treeless_world_def)
  from update_without_tree_attribute [OF b t] b t show ?thesis by simp
qed

text \<open>
  The test of line 103 is \<^verbatim>\<open>hasattr\<close> alone. An agent whose attribute \<^verbatim>\<open>tree\<close> is
  there and holds \<^verbatim>\<open>None\<close>, the state that line 120 of the same method tests for, has
  no tree either, but passes line 103: line 107 then indexes \<^verbatim>\<open>None\<close> and raises. The
  state is left as it was, and no warning is printed.
\<close>

lemma update_with_none_tree:
  assumes "isinstance_Particles (heap w) (agent_belief (agent w))"
    and "tree (agent w) = Some PyNone"
  shows "POMCP_update ex self a ob f w = (Inl WrongObject, w)"
  using assms
  by (simp add: POMCP_update_def tree_lookup_def VNode_getitem_def get_vnode_def get_obj_def)

text \<open>
  Claim C3 says that \<^verbatim>\<open>update\<close> on an agent with a particle belief and no tree from
  a prior \<^verbatim>\<open>plan\<close> warns, raises nothing and changes nothing. The source does not do
  this on \<open>none_tree_world\<close>: the agent's belief is made of particles, its attribute
  \<^verbatim>\<open>tree\<close> holds \<^verbatim>\<open>None\<close>, and \<^verbatim>\<open>update\<close> raises, with nothing printed before or
  after the call.
\<close>

theorem update_with_none_tree_raises:
  "isinstance_Particles (heap none_tree_world) (agent_belief (agent none_tree_world)) \<and>
   tree (agent none_tree_world) = Some PyNone \<and>
   POMCP_update idle_expand example_planner 0 0 None none_tree_world
     = (Inl WrongObject, none_tree_world) \<and>
   printed none_tree_world = []"
proof -
  have b: "isinstance_Particles (heap none_tree_world) (agent_belief (agent none_tree_world))"
    by (simp add: none_tree_world_def tree_world_def tree_heap_def isinstance_Particles_def
          particles_of_def get_obj_def)
  have t: "tree (agent none_tree_world) = Some PyNone"
    by (simp add: none_tree_world_def)
  have p: "printed none_tree_world = []"
    by (simp add: none_tree_world_def tree_world_def)
  from update_with_none_tree [OF b t] b t p show ?thesis by simp
qed

text \<open>
  Claim C5. For an agent with a particle belief and a tree, if the slot of the root
  under the real action for the real observation holds the never-simulated marker, then
  \<^verbatim>\<open>update\<close> fails with the particle-deprivation error and the state (heap, agent
  with its belief and tree, output, random source) is the one before the call.
\<close>

theorem update_on_marker_fails_unchanged:
  assumes "isinstance_Particles (heap w) (agent_belief (agent w))"
    and "tree (agent w) = Some t"
    and "tree_lookup (heap w) t a ob = (Inr PyNone :: 'e error + ('a, 'o) pyval)"
  shows "POMCP_update ex self a ob f (w :: ('a, 'o, 's) world)
           = ((Inl ParticleDeprivation :: 'e error + unit), w)"
  using assms by (simp add: POMCP_update_def)

lemma tree_world_belief:
  "isinstance_Particles (heap tree_world) (agent_belief (agent tree_world))"
  by (simp add: tree_world_def tree_heap_def isinstance_Particles_def particles_of_def
        get_obj_def)

lemma tree_world_lookup:
  "tree_lookup (heap tree_world) (Ref 7) 0 0 = Inr (Ref 2)"
  "tree_lookup (heap tree_world) (Ref 7) 0 1 = Inr PyNone"
  by (simp_all add: tree_world_def tree_heap_def tree_lookup_def VNode_getitem_def
        QNode_getitem_def get_vnode_def get_obj_def)

theorem update_on_marker_fails_unchanged_witness:
  "isinstance_Particles (heap tree_world) (agent_belief (agent tree_world)) \<and>
   tree (agent tree_world) = Some (Ref 7) \<and>
   tree_lookup (heap tree_world) (Ref 7) 0 1 = (Inr PyNone :: unit error + (nat, nat) pyval) \<and>
   POMCP_update idle_expand example_planner 0 1 None tree_world
     = (Inl ParticleDeprivation, tree_world)"
proof -
  have t: "tree (agent tree_world) = Some (Ref 7)"
    by (simp add: tree_world_def)
  have l: "tree_lookup (heap tree_world) (Ref 7) 0 1
             = (Inr PyNone :: unit error + (nat, nat) pyval)"
    by (rule tree_world_lookup(2))
  from update_on_marker_fails_unchanged [OF tree_world_belief t l, of idle_expand
         example_planner None]
    tree_world_belief t l
  show ?thesis by simp
qed

text \<open>
  Claim C8. When the agent's belief is not made of particles, \<^verbatim>\<open>plan\<close> and
  \<^verbatim>\<open>update\<close> both fail with the representation-mismatch error, with the state
  unchanged and whatever the base engine would do (it is not called). When the belief is
  made of particles, neither of them fails with this error.
\<close>

theorem representation_is_checked_first:
  "(\<not> isinstance_Particles (heap w) (agent_belief (agent w)) \<longrightarrow>
      POMCP_plan POUCT_plan action_prior_args w = (Inl RepresentationMismatch, w) \<and>
      POMCP_update ex self a ob f w = (Inl RepresentationMismatch, w)) \<and>
   (isinstance_Particles (heap w) (agent_belief (agent w)) \<longrightarrow>
      fst (POMCP_plan POUCT_plan action_prior_args w) \<noteq> Inl RepresentationMismatch \<and>
      fst (POMCP_update ex self a ob f w) \<noteq> Inl RepresentationMismatch)"
proof (intro conjI impI)
  assume "\<not> isinstance_Particles (heap w) (agent_belief (agent w))"
  then show "POMCP_plan POUCT_plan action_prior_args w = (Inl RepresentationMismatch, w)"
    and "POMCP_update ex self a ob f w = (Inl RepresentationMismatch, w)"
    by (simp_all add: POMCP_plan_def POMCP_update_def)
next
  assume p: "isinstance_Particles (heap w) (agent_belief (agent w))"
  then show "fst (POMCP_plan POUCT_plan action_prior_args w) \<noteq> Inl RepresentationMismatch"
    by (auto simp: POMCP_plan_def split: prod.splits sum.splits)
  from p show "fst (POMCP_update ex self a ob f w) \<noteq> Inl RepresentationMismatch"
    by (rule POMCP_update_no_mismatch)
qed

theorem representation_is_checked_first_witness:
  "\<not> isinstance_Particles (heap mismatch_world) (agent_belief (agent mismatch_world)) \<and>
   POMCP_plan idle_plan () mismatch_world = (Inl RepresentationMismatch, mismatch_world) \<and>
   POMCP_update idle_expand example_planner 0 0 None mismatch_world
     = (Inl RepresentationMismatch, mismatch_world) \<and>
   isinstance_Particles (heap tree_world) (agent_belief (agent tree_world)) \<and>
   fst (POMCP_plan idle_plan () tree_world) \<noteq> Inl RepresentationMismatch \<and>
   fst (POMCP_update idle_expand example_planner 0 0 None tree_world)
     \<noteq> Inl RepresentationMismatch"
proof -
  have m: "\<not> isinstance_Particles (heap mismatch_world) (agent_belief (agent mismatch_world))"
    by (simp add: mismatch_world_def tree_world_def tree_heap_def isinstance_Particles_def
          particles_of_def get_obj_def)
  from representation_is_checked_first
         [of mismatch_world idle_plan "()" idle_expand example_planner 0 0 None]
       representation_is_checked_first
         [of tree_world idle_plan "()" idle_expand example_planner 0 0 None]
       m tree_world_belief
  show ?thesis by blast
qed

text \<open>
  Claim C10. Once \<^verbatim>\<open>from_vnode\<close> has returned the new root \<open>r\<close> at line 112, the
  agent's tree is the reference to \<open>r\<close> whatever the rest of lines 112 to 119 does,
  and never \<^verbatim>\<open>None\<close>; so lines 120 to 129 take the branch that stores a copy of the
  agent's belief in the root, and the branch that builds and expands a new root (and
  with it the base engine's expansion \<open>ex\<close>) is not reached.
\<close>

theorem transplanted_root_is_not_none:
  assumes "from_vnode child (Hist (agent_history (agent w))) (heap w)
             = ((Inr r :: 'e error + addr), h1)"
    and "update_transplant child a ob f w = ((res :: 'e error + unit), w3)"
  shows "tree (agent w3) = Some (Ref r) \<and> tree (agent w3) \<noteq> Some PyNone \<and>
         update_install ex self w3 =
           (case deepcopy (agent_belief (agent w3)) w3 of
              (Inl e, w4) \<Rightarrow> (Inl e, w4)
            | (Inr c, w4) \<Rightarrow> set_node_belief (Ref r) c w4)"
proof -
  from assms(1) obtain n where n: "get_vnode (heap w) child = Some n"
    by (cases "get_vnode (heap w) child") (auto simp: from_vnode_fails)
  from assms(1) have r: "r = length (heap w)"
    by (simp add: from_vnode_result [OF n])
  from update_transplant_tree [OF n assms(2)] r have t: "tree (agent w3) = Some (Ref r)"
    by simp
  from t update_install_with_root [OF t] show ?thesis
    by simp
qed

theorem transplanted_root_is_not_none_witness:
  "from_vnode (Ref 2) (Hist (agent_history (agent tree_world))) (heap tree_world)
     = ((Inr 9 :: unit error + addr),
        tree_heap @ [VNode \<lparr>num_visits = 3, value_est = 0, belief = Ref 1, children = Ref 3,
                            history = Some (Hist [(0, 0)])\<rparr>, Dict Map.empty]) \<and>
   tree (agent (snd (update_transplant (Ref 2) 0 0 None tree_world
                      :: (unit error + unit) \<times> (nat, nat, nat) world))) = Some (Ref 9)"
proof -
  have n: "get_vnode (heap tree_world) (Ref 2) =
             Some \<lparr>num_visits = 3, value_est = 0, belief = Ref 1, children = Ref 3,
                   history = None\<rparr>"
    by (simp add: tree_world_def tree_heap_def get_vnode_def get_obj_def)
  have f: "from_vnode (Ref 2) (Hist (agent_history (agent tree_world))) (heap tree_world)
     = ((Inr 9 :: unit error + addr),
        tree_heap @ [VNode \<lparr>num_visits = 3, value_est = 0, belief = Ref 1, children = Ref 3,
                            history = Some (Hist [(0, 0)])\<rparr>, Dict Map.empty])"
    unfolding from_vnode_result [OF n] by (simp add: tree_world_def tree_heap_def)
  have u: "update_transplant (Ref 2) 0 0 None tree_world
             = (fst (update_transplant (Ref 2) 0 0 None tree_world
                      :: (unit error + unit) \<times> (nat, nat, nat) world),
                snd (update_transplant (Ref 2) 0 0 None tree_world
                      :: (unit error + unit) \<times> (nat, nat, nat) world))"
    by simp
  from transplanted_root_is_not_none [OF f u, of idle_expand example_planner] f
  show ?thesis by simp
qed

subsection \<open>The simulation hook\<close>

text \<open>
  Claim C9. Let the base engine's \<^verbatim>\<open>_simulate\<close> return the total reward and leave
  the state \<open>w1\<close>. At depth 1 and with a root whose belief holds the particles \<open>xs\<close>
  at that moment, the hook returns the same total reward and the state \<open>w1\<close> in which
  the root's belief holds \<open>xs\<close> followed by the state, the root node and every other
  object being as in \<open>w1\<close>. At any other depth, or with \<^verbatim>\<open>None\<close> for the root, the
  hook returns the same total reward and \<open>w1\<close> itself.
\<close>

theorem simulate_adds_state_to_root_belief:
  assumes "POUCT_simulate state hist root_node parent observation depth w
             = ((Inr total_reward :: 'e + real), (w1 :: ('a, 'o, 's) world))"
  shows "(depth = 1 \<and> get_vnode (heap w1) root_node = Some n \<and> belief n = Ref p \<and>
          particles_of (heap w1) (Ref p) = Some xs \<longrightarrow>
            POMCP_simulate POUCT_simulate state hist root_node parent observation depth w
              = (Inr total_reward, w1\<lparr>heap := (heap w1)[p := Particles (xs @ [state])]\<rparr>) \<and>
            particles_of ((heap w1)[p := Particles (xs @ [state])]) (belief n)
              = Some (xs @ [state]) \<and>
            get_vnode ((heap w1)[p := Particles (xs @ [state])]) root_node = Some n) \<and>
         (depth \<noteq> 1 \<or> root_node = PyNone \<longrightarrow>
            POMCP_simulate POUCT_simulate state hist root_node parent observation depth w
              = (Inr total_reward, w1))"
proof (intro conjI impI)
  assume a: "depth = 1 \<and> get_vnode (heap w1) root_node = Some n \<and> belief n = Ref p \<and>
             particles_of (heap w1) (Ref p) = Some xs"
  then have root: "root_node \<noteq> PyNone"
    by (auto simp: get_vnode_def get_obj_def)
  from a have add: "Particles_add (belief n) state w1
      = ((Inr () :: 'e error + unit), w1\<lparr>heap := (heap w1)[p := Particles (xs @ [state])]\<rparr>)"
    by (simp add: Particles_add_def)
  from assms a root add
  show "POMCP_simulate POUCT_simulate state hist root_node parent observation depth w
          = (Inr total_reward, w1\<lparr>heap := (heap w1)[p := Particles (xs @ [state])]\<rparr>)"
    by (simp add: POMCP_simulate_def)
  from a particles_of_Ref [of "heap w1" "Ref p" xs] have p: "p < length (heap w1)"
    "heap w1 ! p = Particles xs"
    by auto
  from a p show "particles_of ((heap w1)[p := Particles (xs @ [state])]) (belief n)
                   = Some (xs @ [state])"
    by (simp add: particles_of_def get_obj_def)
  from a p show "get_vnode ((heap w1)[p := Particles (xs @ [state])]) root_node = Some n"
    by (auto simp: get_vnode_def get_obj_def nth_list_update
             split: pyval.splits if_splits option.splits obj.splits)
next
  assume "depth \<noteq> 1 \<or> root_node = PyNone"
  with assms
  show "POMCP_simulate POUCT_simulate state hist root_node parent observation depth w
          = (Inr total_reward, w1)"
    by (auto simp: POMCP_simulate_def)
qed

theorem simulate_adds_state_to_root_belief_witness:
  "idle_simulate 9 [] (Ref 7) PyNone None 1 tree_world = (Inr 1, tree_world) \<and>
   get_vnode (heap tree_world) (Ref 7)
     = Some \<lparr>num_visits = 9, value_est = 0, belief = Ref 6, children = Ref 5,
             history = Some (Hist [])\<rparr> \<and>
   particles_of (heap tree_world) (Ref 6) = Some [1, 2] \<and>
   POMCP_simulate idle_simulate 9 [] (Ref 7) PyNone None 1 tree_world
     = (Inr 1, tree_world\<lparr>heap := (heap tree_world)[6 := Particles [1, 2, 9]]\<rparr>) \<and>
   idle_simulate 9 [] (Ref 7) PyNone None 2 tree_world = (Inr 1, tree_world) \<and>
   POMCP_simulate idle_simulate 9 [] (Ref 7) PyNone None 2 tree_world = (Inr 1, tree_world)"
proof -
  have s1: "idle_simulate 9 [] (Ref 7) PyNone None 1 tree_world = (Inr 1, tree_world)"
    and s2: "idle_simulate 9 [] (Ref 7) PyNone None 2 tree_world = (Inr 1, tree_world)"
    by (simp_all add: idle_simulate_def)
  have n: "get_vnode (heap tree_world) (Ref 7)
     = Some \<lparr>num_visits = 9, value_est = 0, belief = Ref 6, children = Ref 5,
             history = Some (Hist [])\<rparr>"
    by (simp add: tree_world_def tree_heap_def get_vnode_def get_obj_def)
  have b: "belief \<lparr>num_visits = 9, value_est = 0, belief = (Ref 6 :: (nat, nat) pyval),
                   children = Ref 5, history = Some (Hist [])\<rparr> = Ref 6"
    by simp
  have p: "particles_of (heap tree_world) (Ref 6) = Some [1, 2]"
    by (simp add: tree_world_def tree_heap_def particles_of_def get_obj_def)
  note t1 = simulate_adds_state_to_root_belief
    [where POUCT_simulate = idle_simulate and state = 9 and hist = "[]"
       and root_node = "Ref 7" and parent = PyNone and observation = None and depth = 1
       and w = tree_world and ?w1.0 = tree_world and total_reward = 1
       and n = "\<lparr>num_visits = 9, value_est = 0, belief = Ref 6, children = Ref 5,
                 history = Some (Hist [])\<rparr>" and p = 6 and xs = "[1, 2]"]
  note t2 = simulate_adds_state_to_root_belief
    [where POUCT_simulate = idle_simulate and state = 9 and hist = "[]"
       and root_node = "Ref 7" and parent = PyNone and observation = None and depth = 2
       and w = tree_world and ?w1.0 = tree_world and total_reward = 1]
  from t1 [OF s1] t2 [OF s2] s1 s2 n b p
  show ?thesis by simp
qed

subsection \<open>Node construction\<close>

lemma VNodeParticles_result:
  "VNodeParticles nv v b h =
     (length h,
      h @ [VNode \<lparr>num_visits = nv, value_est = v, belief = b,
                  children = Ref (Suc (length h)), history = None\<rparr>,
           Dict Map.empty])"
  by (simp add: VNodeParticles_def alloc_def list_update_append)

lemma two_default_nodes_value:
  "two_default_nodes =
     ((2, 4),
      [Particles [], Particles [],
       VNode \<lparr>num_visits = 1, value_est = 0, belief = Ref 0, children = Ref 3, history = None\<rparr>,
       Dict Map.empty,
       VNode \<lparr>num_visits = 1, value_est = 0, belief = Ref 0, children = Ref 5, history = None\<rparr>,
       Dict Map.empty])"
  by (simp add: two_default_nodes_def load_module_def alloc_def VNodeParticles_default_belief_def
        VNodeParticles_result)

text \<open>
  Claim C2 asks that two nodes built without a belief argument have independent empty
  beliefs. The constructor called without a \<^verbatim>\<open>belief\<close> argument does not give that:
  the two nodes 2 and 4 of \<open>two_default_nodes\<close> are distinct objects whose \<^verbatim>\<open>belief\<close>
  attributes are the same object 0, the one default of the constructor, which is empty;
  after a particle is added to the belief of node 2, the belief of node 4 holds that
  particle too.
\<close>

theorem default_belief_is_shared_between_nodes:
  "fst two_default_nodes = (2, 4) \<and>
   map_option belief (get_vnode (heap two_default_nodes_world) (Ref 2)) = Some (Ref 0) \<and>
   map_option belief (get_vnode (heap two_default_nodes_world) (Ref 4)) = Some (Ref 0) \<and>
   particles_of (heap two_default_nodes_world) (Ref 0) = Some [] \<and>
   fst (Particles_add (Ref 0) 7 two_default_nodes_world) = (Inr () :: unit error + unit) \<and>
   particles_of
     (heap (snd (Particles_add (Ref 0) 7 two_default_nodes_world
                   :: (unit error + unit) \<times> (nat, nat, nat) world)))
     (Ref 0) = Some [7]"
  by (simp add: two_default_nodes_world_def two_default_nodes_value get_vnode_def get_obj_def
        particles_of_def Particles_add_def)

text \<open>
  The hook \<^verbatim>\<open>_VNode\<close> called without an agent passes a new \<^verbatim>\<open>Particles([])\<close> to the
  constructor at each call, so the nodes it builds do have independent beliefs.
\<close>

lemma POMCP_VNode_without_agent:
  "POMCP_VNode self None False w =
     (Inr (Ref (Suc (length (heap w)))),
      w\<lparr>heap := heap w @
           [Particles [],
            VNode \<lparr>num_visits = num_visits_init self, value_est = value_init self,
                   belief = Ref (length (heap w)),
                   children = Ref (Suc (Suc (length (heap w)))), history = None\<rparr>,
            Dict Map.empty]\<rparr>)"
  by (simp add: POMCP_VNode_def alloc_def VNodeParticles_result)

lemma POMCP_VNode_beliefs_are_distinct:
  assumes "POMCP_VNode self None False w = ((Inr n1 :: 'e error + _), w1)"
    and "POMCP_VNode self None False w1 = ((Inr n2 :: 'e error + _), w2)"
  shows "n1 = Ref (length (heap w) + 1) \<and> n2 = Ref (length (heap w) + 4) \<and>
         map_option belief (get_vnode (heap w2) n1) = Some (Ref (length (heap w))) \<and>
         map_option belief (get_vnode (heap w2) n2) = Some (Ref (length (heap w) + 3)) \<and>
         particles_of (heap w2) (Ref (length (heap w))) = Some [] \<and>
         particles_of (heap w2) (Ref (length (heap w) + 3)) = Some [] \<and>
         particles_of ((heap w2)[length (heap w) := Particles [s]]) (Ref (length (heap w) + 3))
           = Some []"
proof -
  let ?L = "length (heap w)"
  let ?node = "\<lambda>k. VNode \<lparr>num_visits = num_visits_init self, value_est = value_init self,
                           belief = Ref k, children = Ref (Suc (Suc k)), history = None\<rparr>"
  from assms(1) have n1: "n1 = Ref (Suc ?L)"
    and h1: "heap w1 = heap w @ [Particles [], ?node ?L, Dict Map.empty]"
    unfolding POMCP_VNode_without_agent by auto
  from assms(2) h1 have n2: "n2 = Ref (?L + 4)"
    and h2: "heap w2 = heap w @ [Particles [], ?node ?L, Dict Map.empty,
                                 Particles [], ?node (?L + 3), Dict Map.empty]"
    unfolding POMCP_VNode_without_agent by auto
  have at: "heap w2 ! ?L = Particles []" "heap w2 ! (?L + 1) = ?node ?L"
    "heap w2 ! (?L + 3) = Particles []" "heap w2 ! (?L + 4) = ?node (?L + 3)"
    "length (heap w2) = ?L + 6"
    unfolding h2 by (simp_all add: nth_append)
  from n1 n2 at show ?thesis
    by (simp add: get_vnode_def get_obj_def particles_of_def)
qed

subsection \<open>A successful update\<close>

lemma reinvigoration_success:
  assumes "particles_of (heap w) v = Some b" and "b \<noteq> []"
  shows "\<exists>zs ms d. POMCP_particle_reinvigoration v a ob N f w =
           ((Inr (Ref (length (heap w))) :: 'e error + ('a, 'o) pyval),
            (w :: ('a, 'o, 's) world)\<lparr>heap := heap w @ [Particles (b @ zs)],
               printed := printed w @ ms, drawn := drawn w + d\<rparr>) \<and>
           int (length (b @ zs)) = max (int (length b)) N"
proof (cases "N < int (length b)")
  case True
  have run: "POMCP_particle_reinvigoration v a ob N f w =
           ((Inr (Ref (length (heap w))) :: 'e error + ('a, 'o) pyval),
            w\<lparr>heap := heap w @ [Particles b]\<rparr>)"
    by (rule reinvigoration_oversize [OF assms True])
  show ?thesis
    by (rule exI [of _ "[]"], rule exI [of _ "[]"], rule exI [of _ 0])
       (use run True in simp)
next
  case False
  then have le: "int (length b) \<le> N" by simp
  let ?zs = "map (\<lambda>j. apply_transform f (b ! (draws w (drawn w + j) mod length b)))
               [0..<nat N - length b]"
  have run: "POMCP_particle_reinvigoration v a ob N f w =
           ((Inr (Ref (length (heap w))) :: 'e error + ('a, 'o) pyval),
            w\<lparr>heap := heap w @ [Particles (b @ ?zs)],
               printed := printed w @ [ReinvigorationNotice (N - int (length b))],
               drawn := drawn w + (nat N - length b)\<rparr>)"
    by (rule reinvigoration_grow [OF assms le])
  have len: "int (length (b @ ?zs)) = max (int (length b)) N"
    using le by simp
  show ?thesis
    by (rule exI [of _ ?zs],
        rule exI [of _ "[ReinvigorationNotice (N - int (length b))]"],
        rule exI [of _ "nat N - length b"], rule conjI, rule run, rule len)
qed

lemma particles_of_append_nodes:
  "particles_of (h @ [VNode n, Dict d]) v = particles_of h v"
proof (cases v)
  case (Ref p)
  consider "p < length h" | "p = length h" | "p = Suc (length h)" | "Suc (length h) < p"
    by linarith
  then show ?thesis
    by cases (simp_all add: Ref particles_of_def get_obj_def nth_append)
qed (simp_all add: particles_of_def get_obj_def)

lemma deepcopy_keeps_kind:
  assumes "particles_of (heap w) v = None"
    and "deepcopy v w = ((Inr c :: 'e error + _), w1)"
  shows "particles_of (heap w1) c = None"
proof (cases v)
  case PyNone
  with assms show ?thesis by (auto simp: deepcopy_def)
next
  case (Hist hs)
  with assms show ?thesis by (auto simp: deepcopy_def particles_of_def get_obj_def)
next
  case (Ref p)
  show ?thesis
  proof (cases "get_obj (heap w) (Ref p)")
    case None
    with assms Ref show ?thesis by (simp add: deepcopy_def)
  next
    case (Some x)
    with assms Ref show ?thesis
      by (cases x) (auto simp: deepcopy_def alloc_def particles_of_def get_obj_def)
  qed
qed

lemma reinvigoration_needs_particles:
  assumes "POMCP_particle_reinvigoration v a ob N f w = ((Inr b :: 'e error + _), w2)"
  shows "\<exists>xs. particles_of (heap w) v = Some xs \<and> xs \<noteq> []"
proof (cases "particles_of (heap w) v")
  case (Some xs)
  with assms reinvigoration_empty [of w v a ob N f, where 'e = 'e] show ?thesis
    by (cases "xs = []") auto
next
  case None
  obtain r1 :: "'e error + _" and w1 where d: "deepcopy v w = (r1, w1)"
    by (rule prod.exhaust)
  show ?thesis
  proof (cases r1)
    case (Inl e)
    with assms d show ?thesis by (simp add: POMCP_particle_reinvigoration_def)
  next
    case (Inr c)
    with deepcopy_keeps_kind [OF None] d have "particles_of (heap w1) c = None" by simp
    with assms d Inr show ?thesis by (simp add: POMCP_particle_reinvigoration_def)
  qed
qed

lemma update_success:
  fixes w :: "('a, 'o, 's) world"
  assumes b: "isinstance_Particles (heap w) (agent_belief (agent w))"
    and t: "tree (agent w) = Some t"
    and l: "tree_lookup (heap w) t a ob = (Inr child :: 'e error + ('a, 'o) pyval)"
    and c: "get_vnode (heap w) child = Some cn"
    and x: "particles_of (heap w) (belief cn) = Some xs" and ne: "xs \<noteq> []"
    and y: "particles_of (heap w) (init_belief (agent w)) = Some ys"
  shows "\<exists>zs w'. POMCP_update ex self a ob f w = ((Inr () :: 'e error + unit), w') \<and>
           tree (agent w') = Some (Ref (length (heap w))) \<and>
           get_vnode (heap w') (Ref (length (heap w))) =
             Some \<lparr>num_visits = num_visits cn, value_est = value_est cn,
                   belief = Ref (length (heap w) + 3), children = children cn,
                   history = Some (Hist (agent_history (agent w)))\<rparr> \<and>
           particles_of (heap w') (Ref (length (heap w) + 3)) = Some (xs @ zs) \<and>
           int (length (xs @ zs)) = max (int (length xs)) (int (length ys))"
proof -
  define L where "L = length (heap w)"
  define root where "root = \<lparr>num_visits = num_visits cn, value_est = value_est cn,
      belief = belief cn, children = children cn,
      history = Some (Hist (agent_history (agent w)))\<rparr>"
  define w1 where "w1 = w\<lparr>heap := heap w @ [VNode root, Dict Map.empty],
      agent := (agent w)\<lparr>tree := Some (Ref L)\<rparr>\<rparr>"
  have child: "child \<noteq> PyNone"
    using c by (auto simp: get_vnode_def get_obj_def)
  have h1: "heap w1 = heap w @ [VNode root, Dict Map.empty]"
    and a1: "agent w1 = (agent w)\<lparr>tree := Some (Ref L)\<rparr>"
    by (simp_all add: w1_def)
  have len1: "length (heap w1) = L + 2"
    by (simp add: h1 L_def)
  have y1: "particles_of (heap w @ [VNode root, Dict Map.empty]) (init_belief (agent w))
              = Some ys"
    by (simp add: particles_of_append_nodes y)
  have x1: "particles_of (heap w1) (belief cn) = Some xs"
    by (simp add: h1 particles_of_append_nodes x)
  from reinvigoration_success [OF x1 ne, of a ob "int (length ys)" f, where 'e = 'e]
  obtain zs ms d where
    r: "POMCP_particle_reinvigoration (belief cn) a ob (int (length ys)) f w1 =
          ((Inr (Ref (length (heap w1))) :: 'e error + ('a, 'o) pyval),
           w1\<lparr>heap := heap w1 @ [Particles (xs @ zs)],
              printed := printed w1 @ ms, drawn := drawn w1 + d\<rparr>)"
    and size: "int (length (xs @ zs)) = max (int (length xs)) (int (length ys))"
    by blast
  define w3 where "w3 = set_belief (Ref (L + 2))
      (w1\<lparr>heap := heap w1 @ [Particles (xs @ zs)],
          printed := printed w1 @ ms, drawn := drawn w1 + d\<rparr>)"
  have tr: "update_transplant child a ob f w = ((Inr () :: 'e error + unit), w3)"
    unfolding update_transplant_unfold [OF c] root_def [symmetric] L_def [symmetric]
      w1_def [symmetric]
    using y1 r len1 by (simp add: w3_def)
  have h3: "heap w3 = heap w @ [VNode root, Dict Map.empty, Particles (xs @ zs)]"
    and t3: "tree (agent w3) = Some (Ref L)"
    and b3: "agent_belief (agent w3) = Ref (L + 2)"
    by (simp_all add: w3_def set_belief_def h1 a1)
  have p3: "particles_of (heap w3) (Ref (L + 2)) = Some (xs @ zs)"
    by (simp add: h3 L_def particles_of_def get_obj_def nth_append)
  have len3: "length (heap w3) = L + 3"
    by (simp add: h3 L_def)
  define w4 where "w4 = w3\<lparr>heap := heap w3 @ [Particles (xs @ zs)]\<rparr>"
  have d3: "deepcopy (agent_belief (agent w3)) w3
              = ((Inr (Ref (L + 3)) :: 'e error + ('a, 'o) pyval), w4)"
    unfolding b3 deepcopy_Particles [OF p3] len3 w4_def by simp
  have h4: "heap w4 = heap w @ [VNode root, Dict Map.empty, Particles (xs @ zs),
                                Particles (xs @ zs)]"
    and a4: "agent w4 = agent w3"
    by (simp_all add: w4_def h3)
  have n4: "get_vnode (heap w4) (Ref L) = Some root"
    by (simp add: h4 L_def get_vnode_def get_obj_def nth_append)
  define w5 where "w5 = w4\<lparr>heap := (heap w4)[L := VNode (root\<lparr>belief := Ref (L + 3)\<rparr>)]\<rparr>"
  have s4: "set_node_belief (Ref L) (Ref (L + 3)) w4 = ((Inr () :: 'e error + unit), w5)"
    by (simp add: set_node_belief_def n4 w5_def)
  have inst: "update_install ex self w3 = ((Inr () :: 'e error + unit), w5)"
    unfolding update_install_with_root [OF t3] using d3 s4 by simp
  have upd: "POMCP_update ex self a ob f w = ((Inr () :: 'e error + unit), w5)"
    using b t l child tr inst by (simp add: POMCP_update_def)
  have h5: "heap w5 = heap w @ [VNode (root\<lparr>belief := Ref (L + 3)\<rparr>), Dict Map.empty,
                                Particles (xs @ zs), Particles (xs @ zs)]"
    by (simp add: w5_def h4 L_def list_update_append)
  have t5: "tree (agent w5) = Some (Ref L)"
    by (simp add: w5_def a4 t3)
  have n5: "get_vnode (heap w5) (Ref L) = Some (root\<lparr>belief := Ref (L + 3)\<rparr>)"
    by (simp add: h5 L_def get_vnode_def get_obj_def nth_append)
  have p5: "particles_of (heap w5) (Ref (L + 3)) = Some (xs @ zs)"
    by (simp add: h5 L_def particles_of_def get_obj_def nth_append)
  have r5: "root\<lparr>belief := Ref (L + 3)\<rparr> =
      \<lparr>num_visits = num_visits cn, value_est = value_est cn,
       belief = Ref (length (heap w) + 3), children = children cn,
       history = Some (Hist (agent_history (agent w)))\<rparr>"
    by (simp add: root_def L_def)
  show ?thesis
    by (rule exI [of _ zs], rule exI [of _ w5])
       (use upd t5 n5 p5 size r5 in \<open>simp add: L_def\<close>)
qed

lemma update_success_needs:
  fixes w :: "('a, 'o, 's) world"
  assumes u: "POMCP_update ex self a ob f w = ((Inr () :: 'e error + unit), w')"
    and t: "tree (agent w) = Some t"
  shows "isinstance_Particles (heap w) (agent_belief (agent w)) \<and>
         (\<exists>child cn xs ys.
            tree_lookup (heap w) t a ob = (Inr child :: 'e error + ('a, 'o) pyval) \<and>
            get_vnode (heap w) child = Some cn \<and>
            particles_of (heap w) (belief cn) = Some xs \<and> xs \<noteq> [] \<and>
            particles_of (heap w) (init_belief (agent w)) = Some ys)"
proof -
  have b: "isinstance_Particles (heap w) (agent_belief (agent w))"
    using u by (cases "isinstance_Particles (heap w) (agent_belief (agent w))")
      (simp_all add: POMCP_update_def)
  obtain child where l: "tree_lookup (heap w) t a ob = (Inr child :: 'e error + ('a, 'o) pyval)"
    using u b t by (cases "tree_lookup (heap w) t a ob :: 'e error + ('a, 'o) pyval")
      (simp_all add: POMCP_update_def)
  have child: "child \<noteq> PyNone"
    using u b t l by (cases "child = PyNone") (simp_all add: POMCP_update_def)
  obtain r3 :: "'e error + unit" and w3 where tr: "update_transplant child a ob f w = (r3, w3)"
    by (rule prod.exhaust)
  have r3: "r3 = Inr ()"
    using u b t l child tr by (cases r3) (simp_all add: POMCP_update_def)
  obtain cn where c: "get_vnode (heap w) child = Some cn"
    using tr r3 by (cases "get_vnode (heap w) child")
      (simp_all add: update_transplant_def from_vnode_fails)
  let ?H1 = "heap w @ [VNode \<lparr>num_visits = num_visits cn, value_est = value_est cn,
                               belief = belief cn, children = children cn,
                               history = Some (Hist (agent_history (agent w)))\<rparr>,
                        Dict Map.empty]"
  let ?w1 = "w\<lparr>heap := ?H1, agent := (agent w)\<lparr>tree := Some (Ref (length (heap w)))\<rparr>\<rparr>"
  note tr' = tr [unfolded update_transplant_unfold [OF c] r3]
  obtain ys where y1: "particles_of ?H1 (init_belief (agent w)) = Some ys"
    using tr' by (cases "particles_of ?H1 (init_belief (agent w))") simp_all
  then have y: "particles_of (heap w) (init_belief (agent w)) = Some ys"
    by (simp add: particles_of_append_nodes)
  obtain r2 :: "'e error + ('a, 'o) pyval" and w2 where
    r: "POMCP_particle_reinvigoration (belief cn) a ob (int (length ys)) f ?w1 = (r2, w2)"
    by (rule prod.exhaust)
  obtain nb where r2: "r2 = Inr nb"
    using tr' y1 r by (cases r2) simp_all
  from reinvigoration_needs_particles [OF r [unfolded r2]]
  obtain xs where "particles_of (heap ?w1) (belief cn) = Some xs" and ne: "xs \<noteq> []"
    by blast
  then have x: "particles_of (heap w) (belief cn) = Some xs"
    by (simp add: particles_of_append_nodes)
  from b l c x ne y show ?thesis by blast
qed

lemma tree_world_update:
  "fst (POMCP_update idle_expand example_planner 0 0 None tree_world) = Inr () \<and>
   tree (agent (snd (POMCP_update idle_expand example_planner 0 0 None tree_world)))
     = Some (Ref 9) \<and>
   get_vnode (heap (snd (POMCP_update idle_expand example_planner 0 0 None tree_world))) (Ref 9)
     = Some \<lparr>num_visits = 3, value_est = 0, belief = Ref 12, children = Ref 3,
             history = Some (Hist [(0, 0)])\<rparr> \<and>
   particles_of (heap (snd (POMCP_update idle_expand example_planner 0 0 None tree_world)))
     (Ref 12) = Some [5, 6, 7]"
proof -
  let ?cn = "\<lparr>num_visits = 3, value_est = 0, belief = Ref 1, children = Ref 3,
              history = None\<rparr> :: (nat, nat) vnode"
  have t: "tree (agent tree_world) = Some (Ref 7)"
    by (simp add: tree_world_def)
  have l: "tree_lookup (heap tree_world) (Ref 7) 0 0
             = (Inr (Ref 2) :: unit error + (nat, nat) pyval)"
    by (rule tree_world_lookup(1))
  have c: "get_vnode (heap tree_world) (Ref 2) = Some ?cn"
    by (simp add: tree_world_def tree_heap_def get_vnode_def get_obj_def)
  have x: "particles_of (heap tree_world) (belief ?cn) = Some [5, 6, 7]"
    by (simp add: tree_world_def tree_heap_def particles_of_def get_obj_def)
  have ne: "[5, 6, 7 :: nat] \<noteq> []"
    by simp
  have y: "particles_of (heap tree_world) (init_belief (agent tree_world)) = Some [1, 2]"
    by (simp add: tree_world_def tree_heap_def particles_of_def get_obj_def)
  have len: "length (heap tree_world) = 9"
    by (simp add: tree_world_def tree_heap_def)
  have hist: "agent_history (agent tree_world) = [(0, 0)]"
    by (simp add: tree_world_def)
  from update_success [OF tree_world_belief t l c x ne y, of idle_expand example_planner None]
  obtain zs w' where
    u: "POMCP_update idle_expand example_planner 0 0 None tree_world = (Inr (), w')"
    and t': "tree (agent w') = Some (Ref 9)"
    and n': "get_vnode (heap w') (Ref 9)
               = Some \<lparr>num_visits = 3, value_est = 0, belief = Ref 12, children = Ref 3,
                       history = Some (Hist [(0, 0)])\<rparr>"
    and p': "particles_of (heap w') (Ref 12) = Some ([5, 6, 7] @ zs)"
    and size: "int (length ([5, 6, 7 :: nat] @ zs)) = max (int (length [5, 6, 7 :: nat]))
                 (int (length [1, 2 :: nat]))"
    unfolding len hist by auto
  from size have "zs = []" by simp
  with u t' n' p' show ?thesis by simp
qed

text \<open>
  Claim C1, amended. For every call of \<^verbatim>\<open>update\<close> that returns normally, on an agent
  with a tree whose root has the history \<open>hs\<close> and whose own history is \<open>hs\<close> with
  the real action and observation appended, the agent's tree afterwards is a root node
  with that extended history, and the size of its belief is the larger of two numbers:
  the size of the belief of the node promoted (the child for the real observation under
  the real action) and the target count (the size of the agent's initial belief). So the
  belief has at least the target count of particles, and exactly that many when the
  promoted node had no more.
\<close>

theorem update_new_root_history_and_belief_size:
  fixes w :: "('a, 'o, 's) world"
  assumes u: "POMCP_update ex self a ob f w = ((Inr () :: 'e error + unit), w')"
    and t: "tree (agent w) = Some t"
    and old: "get_vnode (heap w) t = Some rn" "history rn = Some (Hist hs)"
    and h: "agent_history (agent w) = hs @ [(a, ob)]"
  shows "\<exists>r n zs child cn xs ys.
           tree (agent w') = Some (Ref r) \<and> get_vnode (heap w') (Ref r) = Some n \<and>
           history n = Some (Hist (hs @ [(a, ob)])) \<and>
           particles_of (heap w') (belief n) = Some zs \<and>
           tree_lookup (heap w) t a ob = (Inr child :: 'e error + ('a, 'o) pyval) \<and>
           get_vnode (heap w) child = Some cn \<and>
           particles_of (heap w) (belief cn) = Some xs \<and>
           particles_of (heap w) (init_belief (agent w)) = Some ys \<and>
           length zs = max (length xs) (length ys)"
proof -
  from update_success_needs [OF u t] obtain child cn xs ys where
    b: "isinstance_Particles (heap w) (agent_belief (agent w))"
    and l: "tree_lookup (heap w) t a ob = (Inr child :: 'e error + ('a, 'o) pyval)"
    and c: "get_vnode (heap w) child = Some cn"
    and x: "particles_of (heap w) (belief cn) = Some xs" and ne: "xs \<noteq> []"
    and y: "particles_of (heap w) (init_belief (agent w)) = Some ys"
    by blast
  let ?n = "\<lparr>num_visits = num_visits cn, value_est = value_est cn,
             belief = Ref (length (heap w) + 3), children = children cn,
             history = Some (Hist (agent_history (agent w)))\<rparr>"
  from update_success [OF b t l c x ne y, of ex self f] u obtain zs where
    t': "tree (agent w') = Some (Ref (length (heap w)))"
    and n': "get_vnode (heap w') (Ref (length (heap w))) = Some ?n"
    and p': "particles_of (heap w') (Ref (length (heap w) + 3)) = Some (xs @ zs)"
    and size: "int (length (xs @ zs)) = max (int (length xs)) (int (length ys))"
    by auto
  have hist: "history ?n = Some (Hist (hs @ [(a, ob)]))"
    by (simp add: h)
  have bel: "particles_of (heap w') (belief ?n) = Some (xs @ zs)"
    using p' by simp
  have len: "length (xs @ zs) = max (length xs) (length ys)"
    using size by linarith
  from t' n' hist bel l c x y len show ?thesis
    by blast
qed

theorem update_new_root_history_and_belief_size_witness:
  "POMCP_update idle_expand example_planner 0 0 None tree_world
     = (Inr (), snd (POMCP_update idle_expand example_planner 0 0 None tree_world)) \<and>
   tree (agent tree_world) = Some (Ref 7) \<and>
   get_vnode (heap tree_world) (Ref 7)
     = Some \<lparr>num_visits = 9, value_est = 0, belief = Ref 6, children = Ref 5,
             history = Some (Hist [])\<rparr> \<and>
   agent_history (agent tree_world) = [] @ [(0, 0)] \<and>
   (\<exists>r n zs xs ys.
      tree (agent (snd (POMCP_update idle_expand example_planner 0 0 None tree_world)))
        = Some (Ref r) \<and>
      get_vnode (heap (snd (POMCP_update idle_expand example_planner 0 0 None tree_world)))
        (Ref r) = Some n \<and>
      history n = Some (Hist [(0, 0)]) \<and>
      particles_of (heap (snd (POMCP_update idle_expand example_planner 0 0 None tree_world)))
        (belief n) = Some zs \<and>
      length zs = max (length (xs :: nat list)) (length (ys :: nat list)))"
proof -
  let ?U = "POMCP_update idle_expand example_planner 0 0 None tree_world"
  let ?rn = "\<lparr>num_visits = 9, value_est = 0, belief = Ref 6, children = Ref 5,
              history = Some (Hist [])\<rparr> :: (nat, nat) vnode"
  have u: "?U = (Inr (), snd ?U)"
    using tree_world_update by (cases ?U) simp
  have t: "tree (agent tree_world) = Some (Ref 7)"
    by (simp add: tree_world_def)
  have old: "get_vnode (heap tree_world) (Ref 7) = Some ?rn"
    by (simp add: tree_world_def tree_heap_def get_vnode_def get_obj_def)
  have oh: "history ?rn = Some (Hist [])"
    by simp
  have h: "agent_history (agent tree_world) = [] @ [(0, 0)]"
    by (simp add: tree_world_def)
  from update_new_root_history_and_belief_size [OF u t old oh h]
  obtain r n zs xs ys where
    "tree (agent (snd ?U)) = Some (Ref r)" "get_vnode (heap (snd ?U)) (Ref r) = Some n"
    "history n = Some (Hist [(0, 0)])" "particles_of (heap (snd ?U)) (belief n) = Some zs"
    "length zs = max (length (xs :: nat list)) (length (ys :: nat list))"
    by auto
  with u t old h show ?thesis by blast
qed

text \<open>
  The claim as it was stated, with the target count itself as the size of the new
  root's belief, fails on \<open>tree_world\<close>: the update succeeds, the history of the
  agent is that of the old root with the real step appended, the slot for the real
  observation holds a node, the target count is 2, and the belief of the new root has
  the 3 particles of the promoted node.
\<close>

theorem update_belief_size_counterexample:
  "fst (POMCP_update idle_expand example_planner 0 0 None tree_world) = Inr () \<and>
   tree (agent tree_world) = Some (Ref 7) \<and>
   map_option history (get_vnode (heap tree_world) (Ref 7)) = Some (Some (Hist [])) \<and>
   agent_history (agent tree_world) = [] @ [(0, 0)] \<and>
   tree_lookup (heap tree_world) (Ref 7) 0 0 = (Inr (Ref 2) :: unit error + (nat, nat) pyval) \<and>
   map_option length (particles_of (heap tree_world) (init_belief (agent tree_world)))
     = Some 2 \<and>
   tree (agent (snd (POMCP_update idle_expand example_planner 0 0 None tree_world)))
     = Some (Ref 9) \<and>
   map_option belief
     (get_vnode (heap (snd (POMCP_update idle_expand example_planner 0 0 None tree_world)))
        (Ref 9)) = Some (Ref 12) \<and>
   map_option length
     (particles_of (heap (snd (POMCP_update idle_expand example_planner 0 0 None tree_world)))
        (Ref 12)) = Some 3 \<and>
   (3 :: nat) \<noteq> 2"
proof -
  have pre: "tree (agent tree_world) = Some (Ref 7)"
    "map_option history (get_vnode (heap tree_world) (Ref 7)) = Some (Some (Hist []))"
    "agent_history (agent tree_world) = [] @ [(0, 0)]"
    "map_option length (particles_of (heap tree_world) (init_belief (agent tree_world)))
       = Some 2"
    by (simp_all add: tree_world_def tree_heap_def get_vnode_def get_obj_def particles_of_def)
  have l: "tree_lookup (heap tree_world) (Ref 7) 0 0
             = (Inr (Ref 2) :: unit error + (nat, nat) pyval)"
    by (rule tree_world_lookup(1))
  from tree_world_update pre l show ?thesis by simp
qed

end
